theory Spec2Isabelle
  imports Main "HOL-Library.Word"
begin

section \<open>The host-transfer backend of Aluminum: data model\<close>

text \<open>
  The backend talks to two things outside the repository: the CUDA runtime and the
  transport (MPI). Neither is executed here. A call that enqueues work on a device
  stream is recorded, in call order, in the list \<open>enqueued\<close> of the host's state; what
  the runtime answers to a call is read from the state as well (\<open>cuda_status\<close> for an
  enqueueing call, \<open>event_status\<close> for \<open>cudaEventQuery\<close>), so a theorem names the
  answers of the runtime it relies on.

  Handles (\<open>cudaStream_t\<close>, \<open>cudaEvent_t\<close>, \<open>MPI_Comm\<close>) are opaque in the source and are
  natural numbers here. A pointer \<open>T*\<close> is an address counted in elements of \<open>T\<close>, so
  \<open>p + k\<close> is the source's pointer arithmetic; element counts (\<open>size_t\<close>) are natural
  numbers, a buffer of \<open>2^64\<close> elements being impossible to allocate. The one \<open>size_t\<close>
  that does wrap, the round-robin counter of the internal streams, is a 64-bit word,
  and where a \<open>size_t\<close> is passed for an \<open>int\<close> the conversion is written out.
\<close>

type_synonym cudaStream_t = nat
type_synonym cudaEvent_t = nat
type_synonym MPI_Comm = nat
type_synonym ptr = nat
type_synonym ReductionOperator = nat

text \<open>A \<open>req_type&\<close> parameter is the address of the caller's request variable.\<close>

type_synonym req_ref = nat

datatype cudaError_t = cudaSuccess | cudaErrorNotReady | cudaErrorOther nat

datatype cudaMemcpyKind = cudaMemcpyDeviceToHost | cudaMemcpyHostToDevice

text \<open>
  \<open>struct HostTransferRequest\<close> (ht_impl.hpp). \<open>req_type\<close> is
  \<open>std::shared_ptr<HostTransferRequest>\<close>: the address of a request object, or the null
  pointer \<open>null_req\<close>. The objects and the number of shared pointers that own each of
  them are part of the host's state (\<open>request_heap\<close>, \<open>use_count\<close>), since the
  destructor of a request runs when its last owner lets go of it.
\<close>

record HostTransferRequest =
  op_event :: cudaEvent_t
  orig_stream :: cudaStream_t

type_synonym request_ptr = nat

type_synonym req_type = "request_ptr option"

definition null_req :: req_type where
  "null_req = None"

text \<open>
  \<open>HostTransferCommunicator\<close> is declared in aluminum/ht/communicator.hpp, which is not
  among the sources; the record has the four accessors the sources call on it.
\<close>

record comm_type =
  rank :: nat
  size_comm :: nat
  get_stream :: cudaStream_t
  get_comm :: MPI_Comm

text \<open>
  \<open>enum class HostTransferAllreduceAlgorithm\<close> and \<open>enum class
  HostTransferCollectiveAlgorithm\<close>. A scoped enumeration without an explicit base has
  underlying type \<open>int\<close>, and every value of the underlying type is a value of the
  enumeration (which is what the \<open>default:\<close> branches of the source are for), so an
  algorithm is an integer and the enumerators are constants.
\<close>

type_synonym allreduce_algo_type = int
type_synonym collective_algo_type = int

definition HostTransferAllreduceAlgorithm_automatic :: allreduce_algo_type where
  "HostTransferAllreduceAlgorithm_automatic = 0"

definition HostTransferAllreduceAlgorithm_host_transfer :: allreduce_algo_type where
  "HostTransferAllreduceAlgorithm_host_transfer = 1"

definition HostTransferCollectiveAlgorithm_automatic :: collective_algo_type where
  "HostTransferCollectiveAlgorithm_automatic = 0"

subsection \<open>Collective states\<close>

text \<open>
  \<open>GatherAlState<T>\<close>: the members the class declares (\<open>host_mem\<close>, \<open>count\<close>, \<open>root\<close>,
  \<open>comm\<close>) and the two members of its base class that the sources read or initialise
  (\<open>is_root\<close>, the first argument of the base constructor, and the stream, its second).
\<close>

record GatherAlState =
  gather_is_root :: bool
  gather_stream :: cudaStream_t
  gather_host_mem :: ptr
  gather_count :: nat
  gather_root :: int
  gather_comm :: MPI_Comm

text \<open>\<open>ht::BarrierAlState\<close>: the stream handed to the base class, and \<open>comm\<close>.\<close>

record BarrierAlState =
  barrier_stream :: cudaStream_t
  barrier_comm :: MPI_Comm

text \<open>
  The other state classes are defined in headers that are not among the sources
  (aluminum/ht/allreduce.hpp, pt2pt.hpp, ...). An object of such a class is represented
  by the arguments its constructor was called with, the stream last.
\<close>

datatype al_state =
    AllreduceAlState ptr ptr nat ReductionOperator comm_type cudaStream_t
  | SendAlState ptr nat int comm_type cudaStream_t
  | RecvAlState ptr nat int comm_type cudaStream_t
  | SendRecvAlState ptr nat int ptr nat int comm_type cudaStream_t
  | AllgatherAlState ptr ptr nat comm_type cudaStream_t
  | AlltoallAlState ptr ptr nat comm_type cudaStream_t
  | BcastAlState ptr nat int comm_type cudaStream_t
  | GatherState GatherAlState
  | ReduceAlState ptr ptr nat ReductionOperator int comm_type cudaStream_t
  | ReduceScatterAlState ptr ptr nat ReductionOperator comm_type cudaStream_t
  | ScatterAlState ptr ptr nat int comm_type cudaStream_t
  | BarrierState BarrierAlState

subsection \<open>Work enqueued on device streams\<close>

text \<open>
  One entry per call that puts work on a stream. The first three are the runtime calls
  the sources make under \<open>AL_CHECK_CUDA\<close> (\<open>cudaStreamWaitEvent\<close> always with flags 0;
  \<open>cudaMemcpyAsync dst src n kind stream\<close> with \<open>n\<close> counted in elements, the source
  passing \<open>sizeof(T)*n\<close> bytes). \<open>start_event_record\<close>, \<open>end_event_record\<close> and
  \<open>gpu_wait_wait\<close> are the calls \<open>start_event.record(stream)\<close>, \<open>end_event.record(stream)\<close>
  and \<open>gpu_wait.wait(stream)\<close> on the members a state inherits. \<open>state_construction\<close>
  stands for whatever the constructor of a state class that is not among the sources
  puts on the stream it is given.
\<close>

datatype device_call =
    cudaEventRecord cudaEvent_t cudaStream_t
  | cudaStreamWaitEvent cudaStream_t cudaEvent_t
  | cudaMemcpyAsync ptr ptr nat cudaMemcpyKind cudaStream_t
  | start_event_record cudaStream_t
  | end_event_record cudaStream_t
  | gpu_wait_wait cudaStream_t
  | state_construction al_state

datatype al_error = cuda_error device_call | al_exception string

datatype 'a result = Normal 'a | Raise al_error

subsection \<open>The host's state\<close>

text \<open>
  \<^item> \<open>enqueued\<close>: the device work enqueued so far, oldest first;
  \<^item> \<open>cuda_status\<close>, \<open>event_status\<close>: the runtime's answers;
  \<^item> \<open>internal_streams\<close>, \<open>cur_stream\<close>: the array \<open>internal_streams[num_internal_streams]\<close>
    of cuda.cpp (read at indices below 5 only) and the function-local static counter
    of \<open>get_internal_stream()\<close>;
  \<^item> \<open>sync_event\<close>: the static member \<open>HostTransferBackend::sync_event\<close>;
  \<^item> \<open>event_pool\<close>, \<open>events_created\<close>: the pool behind \<open>get_cuda_event()\<close>;
  \<^item> \<open>pinned_brk\<close>: the pinned-memory pool behind \<open>mempool.allocate\<close>;
  \<^item> \<open>progress_queue\<close>: the states handed to the progress engine, oldest first;
  \<^item> \<open>requests\<close>: the callers' request variables;
  \<^item> \<open>request_heap\<close>, \<open>use_count\<close>, \<open>requests_made\<close>: the request objects, the number
    of shared pointers owning each (at least 1 for an object a pointer points to; the
    owners may include copies the caller keeps elsewhere), and the number of objects
    made so far, which is the address of the next one.
\<close>

record world =
  enqueued :: "device_call list"
  cuda_status :: "device_call \<Rightarrow> cudaError_t"
  event_status :: "cudaEvent_t \<Rightarrow> cudaError_t"
  internal_streams :: "nat \<Rightarrow> cudaStream_t"
  cur_stream :: "64 word"
  sync_event :: cudaEvent_t
  event_pool :: "cudaEvent_t list"
  events_created :: nat
  pinned_brk :: ptr
  progress_queue :: "al_state list"
  requests :: "req_ref \<Rightarrow> req_type"
  request_heap :: "request_ptr \<Rightarrow> HostTransferRequest"
  use_count :: "request_ptr \<Rightarrow> nat"
  requests_made :: nat

type_synonym 'a al = "world \<Rightarrow> 'a result \<times> world"

definition return_al :: "'a \<Rightarrow> 'a al" where
  "return_al x w = (Normal x, w)"

text \<open>Sequencing: an exception of the first part skips the second.\<close>

definition then_do :: "'a al \<Rightarrow> ('a \<Rightarrow> 'b al) \<Rightarrow> 'b al" where
  "then_do m k w = (case m w of (Raise e, w') \<Rightarrow> (Raise e, w') | (Normal x, w') \<Rightarrow> k x w')"

definition throw_al_exception :: "string \<Rightarrow> 'a al" where
  "throw_al_exception msg w = (Raise (al_exception msg), w)"

text \<open>
  Modelled from the spec: the macro \<open>AL_CHECK_CUDA\<close>, whose definition is not among the
  sources ("any failure from a device call is fatal; the library raises an
  exception-like failure carrying the failing call's identifier"). A call the runtime
  accepts is enqueued; any other status is raised and nothing is enqueued.
\<close>

definition AL_CHECK_CUDA :: "device_call \<Rightarrow> unit al" where
  "AL_CHECK_CUDA c w =
     (if cuda_status w c = cudaSuccess
      then (Normal (), w\<lparr>enqueued := enqueued w @ [c]\<rparr>)
      else (Raise (cuda_error c), w))"

text \<open>
  Modelled from the spec: the member calls \<open>start_event.record\<close>, \<open>end_event.record\<close> and
  \<open>gpu_wait.wait\<close>, and the constructors of the state classes that are not among the
  sources ("wait(device_stream) enqueues a stream operation that blocks the stream
  until the flag becomes ready"). The sources put no check around them: the call is
  enqueued.
\<close>

definition enqueue_call :: "device_call \<Rightarrow> unit al" where
  "enqueue_call c w = (Normal (), w\<lparr>enqueued := enqueued w @ [c]\<rparr>)"

section \<open>cuda.cpp: the internal streams\<close>

definition num_internal_streams :: nat where
  "num_internal_streams = 5"

text \<open>
  \<open>static size_t cur_stream = 0; return internal_streams[cur_stream++ % num_internal_streams];\<close>
  The remainder is taken of the old value of the counter, as an unsigned 64-bit number.
\<close>

definition get_internal_stream :: "world \<Rightarrow> cudaStream_t \<times> world" where
  "get_internal_stream w =
     (internal_streams w (unat (cur_stream w) mod num_internal_streams),
      w\<lparr>cur_stream := cur_stream w + 1\<rparr>)"

text \<open>The state after \<open>n\<close> calls of \<open>get_internal_stream()\<close>, and what the next call returns.\<close>

fun after_calls :: "nat \<Rightarrow> world \<Rightarrow> world" where
  "after_calls 0 w = w"
| "after_calls (Suc n) w = after_calls n (snd (get_internal_stream w))"

definition nth_internal_stream :: "nat \<Rightarrow> world \<Rightarrow> cudaStream_t" where
  "nth_internal_stream n w = fst (get_internal_stream (after_calls n w))"

section \<open>Pools and the progress engine\<close>

text \<open>
  Modelled from the spec: \<open>internal::cuda::get_cuda_event()\<close> (aluminum/cuda/events.hpp
  is not among the sources). "get_event() returns an event object suitable for
  recording on any stream; events are created lazily; there is no upper bound": a
  pooled event is reused, and with the pool empty a new event is created.
\<close>

definition get_cuda_event :: "world \<Rightarrow> cudaEvent_t \<times> world" where
  "get_cuda_event w =
     (case event_pool w of
        [] \<Rightarrow> (events_created w, w\<lparr>events_created := events_created w + 1\<rparr>)
      | e # es \<Rightarrow> (e, w\<lparr>event_pool := es\<rparr>))"

text \<open>
  Modelled from the spec: \<open>mempool.allocate<MemoryType::CUDA_PINNED_HOST, T>(n)\<close>
  (aluminum/mempool.hpp is not among the sources): "allocate(n_elements_of_type T)"
  gives a pinned staging buffer of \<open>n\<close> elements, here the next \<open>n\<close> addresses of the
  pinned region.
\<close>

definition mempool_allocate :: "nat \<Rightarrow> world \<Rightarrow> ptr \<times> world" where
  "mempool_allocate n w = (pinned_brk w, w\<lparr>pinned_brk := pinned_brk w + n\<rparr>)"

text \<open>
  Modelled from the spec: \<open>internal::get_progress_engine()->enqueue(state)\<close>
  (aluminum/progress.hpp is not among the sources): the state joins the "queue of
  collective-state pointers" the progress engine consumes.
\<close>

definition progress_enqueue :: "al_state \<Rightarrow> unit al" where
  "progress_enqueue st w = (Normal (), w\<lparr>progress_queue := progress_queue w @ [st]\<rparr>)"

text \<open>
  Modelled from the spec: \<open>internal::cuda::release_cuda_event(event)\<close> (events.hpp, not
  among the sources): "release_event(e) returns it to the pool". The specification
  does not say where in the pool; here the event released last is the one
  \<open>get_cuda_event\<close> hands out next.
\<close>

definition release_cuda_event :: "cudaEvent_t \<Rightarrow> world \<Rightarrow> world" where
  "release_cuda_event event w = w\<lparr>event_pool := event # event_pool w\<rparr>"

section \<open>ht_impl.hpp: the request and its shared pointer\<close>

text \<open>\<open>~HostTransferRequest() { cuda::release_cuda_event(op_event); }\<close>\<close>

definition destroy_HostTransferRequest :: "HostTransferRequest \<Rightarrow> world \<Rightarrow> world" where
  "destroy_HostTransferRequest this w = release_cuda_event (op_event this) w"

text \<open>
  The shared pointer of the standard library. \<open>make_shared\<close> makes a new object with
  one owner. A pointer that lets go of its object takes one from the number of owners
  and, being the last, runs the destructor (a pointer always owns its object, so the
  number is at least 1; a state in which it is 0 is read as the last owner going). Assigning to a request variable stores
  the new value and then lets go of the old one; the sources only ever assign
  \<open>null_req\<close> or the result of \<open>make_shared\<close>, so the new value brings its owner along.
\<close>

definition make_shared :: "HostTransferRequest \<Rightarrow> world \<Rightarrow> request_ptr \<times> world" where
  "make_shared rq w =
     (requests_made w,
      w\<lparr>request_heap := (request_heap w)(requests_made w := rq),
        use_count := (use_count w)(requests_made w := 1),
        requests_made := requests_made w + 1\<rparr>)"

definition shared_ptr_release :: "request_ptr \<Rightarrow> world \<Rightarrow> world" where
  "shared_ptr_release p w =
     (let w1 = w\<lparr>use_count := (use_count w)(p := use_count w p - 1)\<rparr>
      in if use_count w p \<le> 1 then destroy_HostTransferRequest (request_heap w p) w1 else w1)"

definition assign_req :: "req_ref \<Rightarrow> req_type \<Rightarrow> world \<Rightarrow> world" where
  "assign_req req new w =
     (case requests w req of
        None \<Rightarrow> w\<lparr>requests := (requests w)(req := new)\<rparr>
      | Some old \<Rightarrow> shared_ptr_release old (w\<lparr>requests := (requests w)(req := new)\<rparr>))"

section \<open>ht_impl.hpp: requests\<close>

text \<open>
  \<open>Test<HostTransferBackend>\<close>. \<open>req->op_event\<close> is read through the pointer.
  \<open>cudaEventQuery\<close> is compared with \<open>cudaSuccess\<close>, not checked: any other status,
  \<open>cudaErrorNotReady\<close> or an error, gives \<open>false\<close>. \<open>req = null_req\<close> is an assignment to
  the shared pointer.
\<close>

definition Test :: "req_ref \<Rightarrow> world \<Rightarrow> bool \<times> world" where
  "Test req w =
     (case requests w req of
        None \<Rightarrow> (True, w)
      | Some p \<Rightarrow>
          (let r = (event_status w (op_event (request_heap w p)) = cudaSuccess) in
           if r then (True, assign_req req null_req w)
           else (False, w)))"

text \<open>\<open>Wait<HostTransferBackend>\<close>.\<close>

definition Wait :: "req_ref \<Rightarrow> unit al" where
  "Wait req w =
     (case requests w req of
        None \<Rightarrow> (Normal (), w)
      | Some p \<Rightarrow>
          AL_CHECK_CUDA (cudaStreamWaitEvent (orig_stream (request_heap w p))
            (op_event (request_heap w p))) w)"

text \<open>A run of \<open>Test\<close> and \<open>Wait\<close> calls on one request variable, and what each returned.\<close>

datatype req_call = call_Test | call_Wait

datatype req_outcome = Test_returned bool | Wait_returned | Wait_raised al_error

fun run_calls :: "req_ref \<Rightarrow> req_call list \<Rightarrow> world \<Rightarrow> req_outcome list \<times> world" where
  "run_calls req [] w = ([], w)"
| "run_calls req (call_Test # cs) w =
     (case Test req w of (b, w') \<Rightarrow>
        (case run_calls req cs w' of (os, w'') \<Rightarrow> (Test_returned b # os, w'')))"
| "run_calls req (call_Wait # cs) w =
     (case Wait req w of
        (Normal _, w') \<Rightarrow>
          (case run_calls req cs w' of (os, w'') \<Rightarrow> (Wait_returned # os, w''))
      | (Raise e, w') \<Rightarrow> ([Wait_raised e], w'))"

section \<open>Constructors of the collective states\<close>

text \<open>
  \<open>GatherAlState<T>::GatherAlState\<close> (lines 41 to 70 of its header). The member
  initialisers run first (\<open>is_root\<close> from the base class, \<open>host_mem\<close> from the pool),
  then the body. The parameters the source writes \<open>count_\<close>, \<open>root_\<close>, \<open>comm_\<close> and
  \<open>stream_\<close> are written with a prime. \<open>comm_.rank() == root_\<close> compares two \<open>int\<close>s,
  the rank never negative.
\<close>

definition new_GatherAlState ::
  "ptr \<Rightarrow> ptr \<Rightarrow> nat \<Rightarrow> int \<Rightarrow> comm_type \<Rightarrow> cudaStream_t \<Rightarrow> GatherAlState al" where
  "new_GatherAlState sendbuf recvbuf count' root' comm' stream' w =
     (let is_root = (int (rank comm') = root');
          (host_mem, w1) =
             mempool_allocate (if int (rank comm') = root' then size_comm comm' * count' else count') w;
          count = count'
      in then_do
           (if is_root
            then AL_CHECK_CUDA (cudaMemcpyAsync
                   (host_mem + rank comm' * count)
                   (if sendbuf = recvbuf then sendbuf + rank comm' * count else sendbuf)
                   count cudaMemcpyDeviceToHost stream')
            else AL_CHECK_CUDA (cudaMemcpyAsync host_mem sendbuf count
                   cudaMemcpyDeviceToHost stream'))
           (\<lambda>_. then_do (enqueue_call (start_event_record stream'))
           (\<lambda>_. then_do (enqueue_call (gpu_wait_wait stream'))
           (\<lambda>_. then_do
              (if is_root
               then then_do
                      (AL_CHECK_CUDA (cudaMemcpyAsync recvbuf host_mem (count * size_comm comm')
                         cudaMemcpyHostToDevice stream'))
                      (\<lambda>_. enqueue_call (end_event_record stream'))
               else return_al ())
           (\<lambda>_. return_al
              \<lparr>gather_is_root = is_root, gather_stream = stream', gather_host_mem = host_mem,
               gather_count = count, gather_root = root', gather_comm = get_comm comm'\<rparr>))))
           w1)"

text \<open>\<open>ht::BarrierAlState::BarrierAlState\<close> (lines 40 to 48 of its header).\<close>

definition new_BarrierAlState :: "comm_type \<Rightarrow> cudaStream_t \<Rightarrow> BarrierAlState al" where
  "new_BarrierAlState comm' stream' =
     then_do (enqueue_call (start_event_record stream'))
     (\<lambda>_. then_do (enqueue_call (gpu_wait_wait stream'))
     (\<lambda>_. return_al \<lparr>barrier_stream = stream', barrier_comm = get_comm comm'\<rparr>))"

text \<open>
  \<open>new X(args..., stream)\<close> for a state class \<open>X\<close> that is not among the sources: the
  object is its constructor's arguments, and what the constructor puts on the stream
  is the single entry \<open>state_construction\<close>.
\<close>

definition new_state :: "al_state \<Rightarrow> al_state al" where
  "new_state st = then_do (enqueue_call (state_construction st)) (\<lambda>_. return_al st)"

section \<open>ht_impl.hpp: the private helpers of \<open>HostTransferBackend\<close>\<close>

definition sync_internal_stream_with_comm :: "cudaStream_t \<Rightarrow> comm_type \<Rightarrow> unit al" where
  "sync_internal_stream_with_comm internal_stream comm w =
     then_do (AL_CHECK_CUDA (cudaEventRecord (sync_event w) (get_stream comm)))
       (\<lambda>_. AL_CHECK_CUDA (cudaStreamWaitEvent internal_stream (sync_event w))) w"

definition setup_completion_event :: "cudaStream_t \<Rightarrow> comm_type \<Rightarrow> req_ref \<Rightarrow> unit al" where
  "setup_completion_event internal_stream comm req w =
     (case get_cuda_event w of (event, w1) \<Rightarrow>
        then_do (AL_CHECK_CUDA (cudaEventRecord event internal_stream))
          (\<lambda>_ w2.
             case make_shared \<lparr>op_event = event, orig_stream = get_stream comm\<rparr> w2 of
               (p, w3) \<Rightarrow> (Normal (), assign_req req (Some p) w3))
          w1)"

definition do_allreduce ::
  "ptr \<Rightarrow> ptr \<Rightarrow> nat \<Rightarrow> ReductionOperator \<Rightarrow> comm_type \<Rightarrow> cudaStream_t \<Rightarrow> unit al" where
  "do_allreduce sendbuf recvbuf count op comm stream =
     then_do (new_state (AllreduceAlState sendbuf recvbuf count op comm stream)) progress_enqueue"

definition do_send :: "ptr \<Rightarrow> nat \<Rightarrow> int \<Rightarrow> comm_type \<Rightarrow> cudaStream_t \<Rightarrow> unit al" where
  "do_send sendbuf count dest comm stream =
     then_do (new_state (SendAlState sendbuf count dest comm stream)) progress_enqueue"

definition do_recv :: "ptr \<Rightarrow> nat \<Rightarrow> int \<Rightarrow> comm_type \<Rightarrow> cudaStream_t \<Rightarrow> unit al" where
  "do_recv recvbuf count src comm stream =
     then_do (new_state (RecvAlState recvbuf count src comm stream)) progress_enqueue"

definition do_sendrecv ::
  "ptr \<Rightarrow> nat \<Rightarrow> int \<Rightarrow> ptr \<Rightarrow> nat \<Rightarrow> int \<Rightarrow> comm_type \<Rightarrow> cudaStream_t \<Rightarrow> unit al" where
  "do_sendrecv sendbuf send_count dest recvbuf recv_count src comm stream =
     then_do (new_state (SendRecvAlState sendbuf send_count dest recvbuf recv_count src comm stream))
       progress_enqueue"

definition do_allgather :: "ptr \<Rightarrow> ptr \<Rightarrow> nat \<Rightarrow> comm_type \<Rightarrow> cudaStream_t \<Rightarrow> unit al" where
  "do_allgather sendbuf recvbuf count comm stream =
     then_do (new_state (AllgatherAlState sendbuf recvbuf count comm stream)) progress_enqueue"

definition do_alltoall :: "ptr \<Rightarrow> ptr \<Rightarrow> nat \<Rightarrow> comm_type \<Rightarrow> cudaStream_t \<Rightarrow> unit al" where
  "do_alltoall sendbuf recvbuf count comm stream =
     then_do (new_state (AlltoallAlState sendbuf recvbuf count comm stream)) progress_enqueue"

definition do_bcast :: "ptr \<Rightarrow> nat \<Rightarrow> int \<Rightarrow> comm_type \<Rightarrow> cudaStream_t \<Rightarrow> unit al" where
  "do_bcast buf count root comm stream =
     then_do (new_state (BcastAlState buf count root comm stream)) progress_enqueue"

definition do_gather :: "ptr \<Rightarrow> ptr \<Rightarrow> nat \<Rightarrow> int \<Rightarrow> comm_type \<Rightarrow> cudaStream_t \<Rightarrow> unit al" where
  "do_gather sendbuf recvbuf count root comm stream =
     then_do (new_GatherAlState sendbuf recvbuf count root comm stream)
       (\<lambda>state. progress_enqueue (GatherState state))"

definition do_reduce ::
  "ptr \<Rightarrow> ptr \<Rightarrow> nat \<Rightarrow> ReductionOperator \<Rightarrow> int \<Rightarrow> comm_type \<Rightarrow> cudaStream_t \<Rightarrow> unit al" where
  "do_reduce sendbuf recvbuf count op root comm stream =
     then_do (new_state (ReduceAlState sendbuf recvbuf count op root comm stream)) progress_enqueue"

definition do_reduce_scatter ::
  "ptr \<Rightarrow> ptr \<Rightarrow> nat \<Rightarrow> ReductionOperator \<Rightarrow> comm_type \<Rightarrow> cudaStream_t \<Rightarrow> unit al" where
  "do_reduce_scatter sendbuf recvbuf count op comm stream =
     then_do (new_state (ReduceScatterAlState sendbuf recvbuf count op comm stream))
       progress_enqueue"

definition do_scatter :: "ptr \<Rightarrow> ptr \<Rightarrow> nat \<Rightarrow> int \<Rightarrow> comm_type \<Rightarrow> cudaStream_t \<Rightarrow> unit al" where
  "do_scatter sendbuf recvbuf count root comm stream =
     then_do (new_state (ScatterAlState sendbuf recvbuf count root comm stream)) progress_enqueue"

section \<open>ht_impl.hpp: the public operations of \<open>HostTransferBackend\<close>\<close>

text \<open>
  Each function follows its source line by line. A \<open>switch (algo)\<close> is the test of
  \<open>algo\<close> against the listed enumerators, its \<open>default:\<close> the other branch. The
  overloads with a single buffer carry the suffix \<open>_inplace\<close>.
\<close>

definition Allreduce ::
  "ptr \<Rightarrow> ptr \<Rightarrow> nat \<Rightarrow> ReductionOperator \<Rightarrow> comm_type \<Rightarrow> allreduce_algo_type \<Rightarrow> unit al" where
  "Allreduce sendbuf recvbuf count op comm algo =
     (if count = 0 then return_al ()
      else if algo = HostTransferAllreduceAlgorithm_automatic \<or>
             algo = HostTransferAllreduceAlgorithm_host_transfer
           then do_allreduce sendbuf recvbuf count op comm (get_stream comm)
           else throw_al_exception ''Invalid algorithm'')"

definition Allreduce_inplace ::
  "ptr \<Rightarrow> nat \<Rightarrow> ReductionOperator \<Rightarrow> comm_type \<Rightarrow> allreduce_algo_type \<Rightarrow> unit al" where
  "Allreduce_inplace recvbuf count op comm algo = Allreduce recvbuf recvbuf count op comm algo"

definition NonblockingAllreduce ::
  "ptr \<Rightarrow> ptr \<Rightarrow> nat \<Rightarrow> ReductionOperator \<Rightarrow> comm_type \<Rightarrow> req_ref \<Rightarrow> allreduce_algo_type \<Rightarrow> unit al" where
  "NonblockingAllreduce sendbuf recvbuf count op comm req algo w =
     (if count = 0 then (Normal (), w)
      else case get_internal_stream w of (internal_stream, w1) \<Rightarrow>
        then_do (sync_internal_stream_with_comm internal_stream comm)
        (\<lambda>_. then_do
           (if algo = HostTransferAllreduceAlgorithm_automatic \<or>
             algo = HostTransferAllreduceAlgorithm_host_transfer
            then do_allreduce sendbuf recvbuf count op comm internal_stream
            else throw_al_exception ''Invalid algorithm'')
        (\<lambda>_. setup_completion_event internal_stream comm req)) w1)"

definition NonblockingAllreduce_inplace ::
  "ptr \<Rightarrow> nat \<Rightarrow> ReductionOperator \<Rightarrow> comm_type \<Rightarrow> req_ref \<Rightarrow> allreduce_algo_type \<Rightarrow> unit al" where
  "NonblockingAllreduce_inplace recvbuf count op comm req algo =
     NonblockingAllreduce recvbuf recvbuf count op comm req algo"

definition Send :: "ptr \<Rightarrow> nat \<Rightarrow> int \<Rightarrow> comm_type \<Rightarrow> unit al" where
  "Send sendbuf count dest comm = do_send sendbuf count dest comm (get_stream comm)"

definition NonblockingSend ::
  "ptr \<Rightarrow> nat \<Rightarrow> int \<Rightarrow> comm_type \<Rightarrow> req_ref \<Rightarrow> unit al" where
  "NonblockingSend sendbuf count dest comm req w =
     (case get_internal_stream w of (internal_stream, w1) \<Rightarrow>
        then_do (sync_internal_stream_with_comm internal_stream comm)
        (\<lambda>_. then_do (do_send sendbuf count dest comm internal_stream)
        (\<lambda>_. setup_completion_event internal_stream comm req)) w1)"

definition Recv :: "ptr \<Rightarrow> nat \<Rightarrow> int \<Rightarrow> comm_type \<Rightarrow> unit al" where
  "Recv recvbuf count src comm = do_recv recvbuf count src comm (get_stream comm)"

definition NonblockingRecv ::
  "ptr \<Rightarrow> nat \<Rightarrow> int \<Rightarrow> comm_type \<Rightarrow> req_ref \<Rightarrow> unit al" where
  "NonblockingRecv recvbuf count src comm req w =
     (case get_internal_stream w of (internal_stream, w1) \<Rightarrow>
        then_do (sync_internal_stream_with_comm internal_stream comm)
        (\<lambda>_. then_do (do_recv recvbuf count src comm internal_stream)
        (\<lambda>_. setup_completion_event internal_stream comm req)) w1)"

definition SendRecv :: "ptr \<Rightarrow> nat \<Rightarrow> int \<Rightarrow> ptr \<Rightarrow> nat \<Rightarrow> int \<Rightarrow> comm_type \<Rightarrow> unit al" where
  "SendRecv sendbuf send_count dest recvbuf recv_count src comm = do_sendrecv sendbuf send_count dest recvbuf recv_count src comm (get_stream comm)"

definition NonblockingSendRecv ::
  "ptr \<Rightarrow> nat \<Rightarrow> int \<Rightarrow> ptr \<Rightarrow> nat \<Rightarrow> int \<Rightarrow> comm_type \<Rightarrow> req_ref \<Rightarrow> unit al" where
  "NonblockingSendRecv sendbuf send_count dest recvbuf recv_count src comm req w =
     (case get_internal_stream w of (internal_stream, w1) \<Rightarrow>
        then_do (sync_internal_stream_with_comm internal_stream comm)
        (\<lambda>_. then_do (do_sendrecv sendbuf send_count dest recvbuf recv_count src comm internal_stream)
        (\<lambda>_. setup_completion_event internal_stream comm req)) w1)"

definition Allgather ::
  "ptr \<Rightarrow> ptr \<Rightarrow> nat \<Rightarrow> comm_type \<Rightarrow> collective_algo_type \<Rightarrow> unit al" where
  "Allgather sendbuf recvbuf count comm algo =
     (if count = 0 then return_al ()
      else if algo = HostTransferCollectiveAlgorithm_automatic
           then do_allgather sendbuf recvbuf count comm (get_stream comm)
           else throw_al_exception ''HostTransferAllgather: Invalid algorithm'')"

definition Allgather_inplace ::
  "ptr \<Rightarrow> nat \<Rightarrow> comm_type \<Rightarrow> collective_algo_type \<Rightarrow> unit al" where
  "Allgather_inplace buffer count comm algo = Allgather buffer buffer count comm algo"

definition NonblockingAllgather ::
  "ptr \<Rightarrow> ptr \<Rightarrow> nat \<Rightarrow> comm_type \<Rightarrow> req_ref \<Rightarrow> collective_algo_type \<Rightarrow> unit al" where
  "NonblockingAllgather sendbuf recvbuf count comm req algo w =
     (if count = 0 then (Normal (), w)
      else case get_internal_stream w of (internal_stream, w1) \<Rightarrow>
        then_do (sync_internal_stream_with_comm internal_stream comm)
        (\<lambda>_. then_do
           (if algo = HostTransferCollectiveAlgorithm_automatic
            then do_allgather sendbuf recvbuf count comm internal_stream
            else throw_al_exception ''HostTransferAllgather: Invalid algorithm'')
        (\<lambda>_. setup_completion_event internal_stream comm req)) w1)"

definition NonblockingAllgather_inplace ::
  "ptr \<Rightarrow> nat \<Rightarrow> comm_type \<Rightarrow> req_ref \<Rightarrow> collective_algo_type \<Rightarrow> unit al" where
  "NonblockingAllgather_inplace buffer count comm req algo =
     NonblockingAllgather buffer buffer count comm req algo"

definition Alltoall ::
  "ptr \<Rightarrow> ptr \<Rightarrow> nat \<Rightarrow> comm_type \<Rightarrow> collective_algo_type \<Rightarrow> unit al" where
  "Alltoall sendbuf recvbuf count comm algo =
     (if count = 0 then return_al ()
      else if algo = HostTransferCollectiveAlgorithm_automatic
           then do_alltoall sendbuf recvbuf count comm (get_stream comm)
           else throw_al_exception ''HostTransferAlltoall: Invalid algorithm'')"

definition Alltoall_inplace ::
  "ptr \<Rightarrow> nat \<Rightarrow> comm_type \<Rightarrow> collective_algo_type \<Rightarrow> unit al" where
  "Alltoall_inplace buffer count comm algo = Alltoall buffer buffer count comm algo"

definition NonblockingAlltoall ::
  "ptr \<Rightarrow> ptr \<Rightarrow> nat \<Rightarrow> comm_type \<Rightarrow> req_ref \<Rightarrow> collective_algo_type \<Rightarrow> unit al" where
  "NonblockingAlltoall sendbuf recvbuf count comm req algo w =
     (if count = 0 then (Normal (), w)
      else case get_internal_stream w of (internal_stream, w1) \<Rightarrow>
        then_do (sync_internal_stream_with_comm internal_stream comm)
        (\<lambda>_. then_do
           (if algo = HostTransferCollectiveAlgorithm_automatic
            then do_alltoall sendbuf recvbuf count comm internal_stream
            else throw_al_exception ''Invalid algorithm'')
        (\<lambda>_. setup_completion_event internal_stream comm req)) w1)"

definition NonblockingAlltoall_inplace ::
  "ptr \<Rightarrow> nat \<Rightarrow> comm_type \<Rightarrow> req_ref \<Rightarrow> collective_algo_type \<Rightarrow> unit al" where
  "NonblockingAlltoall_inplace buffer count comm req algo =
     NonblockingAlltoall buffer buffer count comm req algo"

definition Bcast ::
  "ptr \<Rightarrow> nat \<Rightarrow> int \<Rightarrow> comm_type \<Rightarrow> collective_algo_type \<Rightarrow> unit al" where
  "Bcast buf count root comm algo =
     (if count = 0 then return_al ()
      else if algo = HostTransferCollectiveAlgorithm_automatic
           then do_bcast buf count root comm (get_stream comm)
           else throw_al_exception ''HostTransferBcast: Invalid algorithm'')"

definition NonblockingBcast ::
  "ptr \<Rightarrow> nat \<Rightarrow> int \<Rightarrow> comm_type \<Rightarrow> req_ref \<Rightarrow> collective_algo_type \<Rightarrow> unit al" where
  "NonblockingBcast buf count root comm req algo w =
     (if count = 0 then (Normal (), w)
      else case get_internal_stream w of (internal_stream, w1) \<Rightarrow>
        then_do (sync_internal_stream_with_comm internal_stream comm)
        (\<lambda>_. then_do
           (if algo = HostTransferCollectiveAlgorithm_automatic
            then do_bcast buf count root comm internal_stream
            else throw_al_exception ''HostTransferBcast: Invalid algorithm'')
        (\<lambda>_. setup_completion_event internal_stream comm req)) w1)"

definition Gather ::
  "ptr \<Rightarrow> ptr \<Rightarrow> nat \<Rightarrow> int \<Rightarrow> comm_type \<Rightarrow> collective_algo_type \<Rightarrow> unit al" where
  "Gather sendbuf recvbuf count root comm algo =
     (if count = 0 then return_al ()
      else if algo = HostTransferCollectiveAlgorithm_automatic
           then do_gather sendbuf recvbuf count root comm (get_stream comm)
           else throw_al_exception ''HostTransferGather: Invalid algorithm'')"

definition Gather_inplace ::
  "ptr \<Rightarrow> nat \<Rightarrow> int \<Rightarrow> comm_type \<Rightarrow> collective_algo_type \<Rightarrow> unit al" where
  "Gather_inplace buffer count root comm algo = Gather buffer buffer count root comm algo"

definition NonblockingGather ::
  "ptr \<Rightarrow> ptr \<Rightarrow> nat \<Rightarrow> int \<Rightarrow> comm_type \<Rightarrow> req_ref \<Rightarrow> collective_algo_type \<Rightarrow> unit al" where
  "NonblockingGather sendbuf recvbuf count root comm req algo w =
     (if count = 0 then (Normal (), w)
      else case get_internal_stream w of (internal_stream, w1) \<Rightarrow>
        then_do (sync_internal_stream_with_comm internal_stream comm)
        (\<lambda>_. then_do
           (if algo = HostTransferCollectiveAlgorithm_automatic
            then do_gather sendbuf recvbuf count root comm internal_stream
            else throw_al_exception ''Invalid algorithm'')
        (\<lambda>_. setup_completion_event internal_stream comm req)) w1)"

definition NonblockingGather_inplace ::
  "ptr \<Rightarrow> nat \<Rightarrow> int \<Rightarrow> comm_type \<Rightarrow> req_ref \<Rightarrow> collective_algo_type \<Rightarrow> unit al" where
  "NonblockingGather_inplace buffer count root comm req algo =
     NonblockingGather buffer buffer count root comm req algo"

definition Reduce ::
  "ptr \<Rightarrow> ptr \<Rightarrow> nat \<Rightarrow> ReductionOperator \<Rightarrow> int \<Rightarrow> comm_type \<Rightarrow> collective_algo_type \<Rightarrow> unit al" where
  "Reduce sendbuf recvbuf count op root comm algo =
     (if count = 0 then return_al ()
      else if algo = HostTransferCollectiveAlgorithm_automatic
           then do_reduce sendbuf recvbuf count op root comm (get_stream comm)
           else throw_al_exception ''HostTransferReduce: Invalid algorithm'')"

definition Reduce_inplace ::
  "ptr \<Rightarrow> nat \<Rightarrow> ReductionOperator \<Rightarrow> int \<Rightarrow> comm_type \<Rightarrow> collective_algo_type \<Rightarrow> unit al" where
  "Reduce_inplace buffer count op root comm algo = Reduce buffer buffer count op root comm algo"

definition NonblockingReduce ::
  "ptr \<Rightarrow> ptr \<Rightarrow> nat \<Rightarrow> ReductionOperator \<Rightarrow> int \<Rightarrow> comm_type \<Rightarrow> req_ref \<Rightarrow> collective_algo_type \<Rightarrow> unit al" where
  "NonblockingReduce sendbuf recvbuf count op root comm req algo w =
     (if count = 0 then (Normal (), w)
      else case get_internal_stream w of (internal_stream, w1) \<Rightarrow>
        then_do (sync_internal_stream_with_comm internal_stream comm)
        (\<lambda>_. then_do
           (if algo = HostTransferCollectiveAlgorithm_automatic
            then do_reduce sendbuf recvbuf count op root comm internal_stream
            else throw_al_exception ''Invalid algorithm'')
        (\<lambda>_. setup_completion_event internal_stream comm req)) w1)"

definition NonblockingReduce_inplace ::
  "ptr \<Rightarrow> nat \<Rightarrow> ReductionOperator \<Rightarrow> int \<Rightarrow> comm_type \<Rightarrow> req_ref \<Rightarrow> collective_algo_type \<Rightarrow> unit al" where
  "NonblockingReduce_inplace buffer count op root comm req algo =
     NonblockingReduce buffer buffer count op root comm req algo"

definition Reduce_scatter ::
  "ptr \<Rightarrow> ptr \<Rightarrow> nat \<Rightarrow> ReductionOperator \<Rightarrow> comm_type \<Rightarrow> collective_algo_type \<Rightarrow> unit al" where
  "Reduce_scatter sendbuf recvbuf count op comm algo =
     (if count = 0 then return_al ()
      else if algo = HostTransferCollectiveAlgorithm_automatic
           then do_reduce_scatter sendbuf recvbuf count op comm (get_stream comm)
           else throw_al_exception ''HostTransferReduce_scatter: Invalid algorithm'')"

definition Reduce_scatter_inplace ::
  "ptr \<Rightarrow> nat \<Rightarrow> ReductionOperator \<Rightarrow> comm_type \<Rightarrow> collective_algo_type \<Rightarrow> unit al" where
  "Reduce_scatter_inplace buffer count op comm algo = Reduce_scatter buffer buffer count op comm algo"

definition NonblockingReduce_scatter ::
  "ptr \<Rightarrow> ptr \<Rightarrow> nat \<Rightarrow> ReductionOperator \<Rightarrow> comm_type \<Rightarrow> req_ref \<Rightarrow> collective_algo_type \<Rightarrow> unit al" where
  "NonblockingReduce_scatter sendbuf recvbuf count op comm req algo w =
     (if count = 0 then (Normal (), w)
      else case get_internal_stream w of (internal_stream, w1) \<Rightarrow>
        then_do (sync_internal_stream_with_comm internal_stream comm)
        (\<lambda>_. then_do
           (if algo = HostTransferCollectiveAlgorithm_automatic
            then do_reduce_scatter sendbuf recvbuf count op comm internal_stream
            else throw_al_exception ''HostTransferReduce_scatter: Invalid algorithm'')
        (\<lambda>_. setup_completion_event internal_stream comm req)) w1)"

definition NonblockingReduce_scatter_inplace ::
  "ptr \<Rightarrow> nat \<Rightarrow> ReductionOperator \<Rightarrow> comm_type \<Rightarrow> req_ref \<Rightarrow> collective_algo_type \<Rightarrow> unit al" where
  "NonblockingReduce_scatter_inplace buffer count op comm req algo =
     NonblockingReduce_scatter buffer buffer count op comm req algo"

definition Scatter ::
  "ptr \<Rightarrow> ptr \<Rightarrow> nat \<Rightarrow> int \<Rightarrow> comm_type \<Rightarrow> collective_algo_type \<Rightarrow> unit al" where
  "Scatter sendbuf recvbuf count root comm algo =
     (if count = 0 then return_al ()
      else if algo = HostTransferCollectiveAlgorithm_automatic
           then do_scatter sendbuf recvbuf count root comm (get_stream comm)
           else throw_al_exception ''HostTransferScatter: Invalid algorithm'')"

definition Scatter_inplace ::
  "ptr \<Rightarrow> nat \<Rightarrow> int \<Rightarrow> comm_type \<Rightarrow> collective_algo_type \<Rightarrow> unit al" where
  "Scatter_inplace buffer count root comm algo = Scatter buffer buffer count root comm algo"

definition NonblockingScatter ::
  "ptr \<Rightarrow> ptr \<Rightarrow> nat \<Rightarrow> int \<Rightarrow> comm_type \<Rightarrow> req_ref \<Rightarrow> collective_algo_type \<Rightarrow> unit al" where
  "NonblockingScatter sendbuf recvbuf count root comm req algo w =
     (if count = 0 then (Normal (), w)
      else case get_internal_stream w of (internal_stream, w1) \<Rightarrow>
        then_do (sync_internal_stream_with_comm internal_stream comm)
        (\<lambda>_. then_do
           (if algo = HostTransferCollectiveAlgorithm_automatic
            then do_scatter sendbuf recvbuf count root comm internal_stream
            else throw_al_exception ''Invalid algorithm'')
        (\<lambda>_. setup_completion_event internal_stream comm req)) w1)"

definition NonblockingScatter_inplace ::
  "ptr \<Rightarrow> nat \<Rightarrow> int \<Rightarrow> comm_type \<Rightarrow> req_ref \<Rightarrow> collective_algo_type \<Rightarrow> unit al" where
  "NonblockingScatter_inplace buffer count root comm req algo =
     NonblockingScatter buffer buffer count root comm req algo"

section \<open>The operations as data\<close>

text \<open>
  One constructor per operation of the backend and per single-buffer overload,
  holding its arguments, so that a statement can range over all of them. \<open>blocking_form\<close> and \<open>nonblocking_form\<close> call
  the two public functions of the operation, \<open>issue_on\<close> its private \<open>do_\<close> function on
  a given stream. \<open>is_issued\<close> holds when the call passes the zero-count return and
  names an algorithm the \<open>switch\<close> lists; the point-to-point operations have neither.
\<close>

datatype operation =
    op_Allreduce ptr ptr nat ReductionOperator allreduce_algo_type
  | op_Send ptr nat int
  | op_Recv ptr nat int
  | op_SendRecv ptr nat int ptr nat int
  | op_Allgather ptr ptr nat collective_algo_type
  | op_Alltoall ptr ptr nat collective_algo_type
  | op_Bcast ptr nat int collective_algo_type
  | op_Gather ptr ptr nat int collective_algo_type
  | op_Reduce ptr ptr nat ReductionOperator int collective_algo_type
  | op_Reduce_scatter ptr ptr nat ReductionOperator collective_algo_type
  | op_Scatter ptr ptr nat int collective_algo_type
  | op_Allreduce_inplace ptr nat ReductionOperator allreduce_algo_type
  | op_Allgather_inplace ptr nat collective_algo_type
  | op_Alltoall_inplace ptr nat collective_algo_type
  | op_Gather_inplace ptr nat int collective_algo_type
  | op_Reduce_inplace ptr nat ReductionOperator int collective_algo_type
  | op_Reduce_scatter_inplace ptr nat ReductionOperator collective_algo_type
  | op_Scatter_inplace ptr nat int collective_algo_type

fun blocking_form :: "operation \<Rightarrow> comm_type \<Rightarrow> unit al" where
  "blocking_form (op_Allreduce sendbuf recvbuf count op algo) comm =
     Allreduce sendbuf recvbuf count op comm algo"
| "blocking_form (op_Send sendbuf count dest) comm = Send sendbuf count dest comm"
| "blocking_form (op_Recv recvbuf count src) comm = Recv recvbuf count src comm"
| "blocking_form (op_SendRecv sendbuf send_count dest recvbuf recv_count src) comm =
     SendRecv sendbuf send_count dest recvbuf recv_count src comm"
| "blocking_form (op_Allgather sendbuf recvbuf count algo) comm =
     Allgather sendbuf recvbuf count comm algo"
| "blocking_form (op_Alltoall sendbuf recvbuf count algo) comm =
     Alltoall sendbuf recvbuf count comm algo"
| "blocking_form (op_Bcast buf count root algo) comm = Bcast buf count root comm algo"
| "blocking_form (op_Gather sendbuf recvbuf count root algo) comm =
     Gather sendbuf recvbuf count root comm algo"
| "blocking_form (op_Reduce sendbuf recvbuf count op root algo) comm =
     Reduce sendbuf recvbuf count op root comm algo"
| "blocking_form (op_Reduce_scatter sendbuf recvbuf count op algo) comm =
     Reduce_scatter sendbuf recvbuf count op comm algo"
| "blocking_form (op_Scatter sendbuf recvbuf count root algo) comm =
     Scatter sendbuf recvbuf count root comm algo"
| "blocking_form (op_Allreduce_inplace recvbuf count op algo) comm =
     Allreduce_inplace recvbuf count op comm algo"
| "blocking_form (op_Allgather_inplace buffer count algo) comm =
     Allgather_inplace buffer count comm algo"
| "blocking_form (op_Alltoall_inplace buffer count algo) comm =
     Alltoall_inplace buffer count comm algo"
| "blocking_form (op_Gather_inplace buffer count root algo) comm =
     Gather_inplace buffer count root comm algo"
| "blocking_form (op_Reduce_inplace buffer count op root algo) comm =
     Reduce_inplace buffer count op root comm algo"
| "blocking_form (op_Reduce_scatter_inplace buffer count op algo) comm =
     Reduce_scatter_inplace buffer count op comm algo"
| "blocking_form (op_Scatter_inplace buffer count root algo) comm =
     Scatter_inplace buffer count root comm algo"

fun nonblocking_form :: "operation \<Rightarrow> comm_type \<Rightarrow> req_ref \<Rightarrow> unit al" where
  "nonblocking_form (op_Allreduce sendbuf recvbuf count op algo) comm req =
     NonblockingAllreduce sendbuf recvbuf count op comm req algo"
| "nonblocking_form (op_Send sendbuf count dest) comm req =
     NonblockingSend sendbuf count dest comm req"
| "nonblocking_form (op_Recv recvbuf count src) comm req =
     NonblockingRecv recvbuf count src comm req"
| "nonblocking_form (op_SendRecv sendbuf send_count dest recvbuf recv_count src) comm req =
     NonblockingSendRecv sendbuf send_count dest recvbuf recv_count src comm req"
| "nonblocking_form (op_Allgather sendbuf recvbuf count algo) comm req =
     NonblockingAllgather sendbuf recvbuf count comm req algo"
| "nonblocking_form (op_Alltoall sendbuf recvbuf count algo) comm req =
     NonblockingAlltoall sendbuf recvbuf count comm req algo"
| "nonblocking_form (op_Bcast buf count root algo) comm req =
     NonblockingBcast buf count root comm req algo"
| "nonblocking_form (op_Gather sendbuf recvbuf count root algo) comm req =
     NonblockingGather sendbuf recvbuf count root comm req algo"
| "nonblocking_form (op_Reduce sendbuf recvbuf count op root algo) comm req =
     NonblockingReduce sendbuf recvbuf count op root comm req algo"
| "nonblocking_form (op_Reduce_scatter sendbuf recvbuf count op algo) comm req =
     NonblockingReduce_scatter sendbuf recvbuf count op comm req algo"
| "nonblocking_form (op_Scatter sendbuf recvbuf count root algo) comm req =
     NonblockingScatter sendbuf recvbuf count root comm req algo"
| "nonblocking_form (op_Allreduce_inplace recvbuf count op algo) comm req =
     NonblockingAllreduce_inplace recvbuf count op comm req algo"
| "nonblocking_form (op_Allgather_inplace buffer count algo) comm req =
     NonblockingAllgather_inplace buffer count comm req algo"
| "nonblocking_form (op_Alltoall_inplace buffer count algo) comm req =
     NonblockingAlltoall_inplace buffer count comm req algo"
| "nonblocking_form (op_Gather_inplace buffer count root algo) comm req =
     NonblockingGather_inplace buffer count root comm req algo"
| "nonblocking_form (op_Reduce_inplace buffer count op root algo) comm req =
     NonblockingReduce_inplace buffer count op root comm req algo"
| "nonblocking_form (op_Reduce_scatter_inplace buffer count op algo) comm req =
     NonblockingReduce_scatter_inplace buffer count op comm req algo"
| "nonblocking_form (op_Scatter_inplace buffer count root algo) comm req =
     NonblockingScatter_inplace buffer count root comm req algo"

fun issue_on :: "operation \<Rightarrow> comm_type \<Rightarrow> cudaStream_t \<Rightarrow> unit al" where
  "issue_on (op_Allreduce sendbuf recvbuf count op algo) comm stream =
     do_allreduce sendbuf recvbuf count op comm stream"
| "issue_on (op_Send sendbuf count dest) comm stream = do_send sendbuf count dest comm stream"
| "issue_on (op_Recv recvbuf count src) comm stream = do_recv recvbuf count src comm stream"
| "issue_on (op_SendRecv sendbuf send_count dest recvbuf recv_count src) comm stream =
     do_sendrecv sendbuf send_count dest recvbuf recv_count src comm stream"
| "issue_on (op_Allgather sendbuf recvbuf count algo) comm stream =
     do_allgather sendbuf recvbuf count comm stream"
| "issue_on (op_Alltoall sendbuf recvbuf count algo) comm stream =
     do_alltoall sendbuf recvbuf count comm stream"
| "issue_on (op_Bcast buf count root algo) comm stream = do_bcast buf count root comm stream"
| "issue_on (op_Gather sendbuf recvbuf count root algo) comm stream =
     do_gather sendbuf recvbuf count root comm stream"
| "issue_on (op_Reduce sendbuf recvbuf count op root algo) comm stream =
     do_reduce sendbuf recvbuf count op root comm stream"
| "issue_on (op_Reduce_scatter sendbuf recvbuf count op algo) comm stream =
     do_reduce_scatter sendbuf recvbuf count op comm stream"
| "issue_on (op_Scatter sendbuf recvbuf count root algo) comm stream =
     do_scatter sendbuf recvbuf count root comm stream"
| "issue_on (op_Allreduce_inplace recvbuf count op algo) comm stream =
     do_allreduce recvbuf recvbuf count op comm stream"
| "issue_on (op_Allgather_inplace buffer count algo) comm stream =
     do_allgather buffer buffer count comm stream"
| "issue_on (op_Alltoall_inplace buffer count algo) comm stream =
     do_alltoall buffer buffer count comm stream"
| "issue_on (op_Gather_inplace buffer count root algo) comm stream =
     do_gather buffer buffer count root comm stream"
| "issue_on (op_Reduce_inplace buffer count op root algo) comm stream =
     do_reduce buffer buffer count op root comm stream"
| "issue_on (op_Reduce_scatter_inplace buffer count op algo) comm stream =
     do_reduce_scatter buffer buffer count op comm stream"
| "issue_on (op_Scatter_inplace buffer count root algo) comm stream =
     do_scatter buffer buffer count root comm stream"

fun is_issued :: "operation \<Rightarrow> bool" where
  "is_issued (op_Allreduce sendbuf recvbuf count op algo) =
     (count \<noteq> 0 \<and> (algo = HostTransferAllreduceAlgorithm_automatic \<or>
                   algo = HostTransferAllreduceAlgorithm_host_transfer))"
| "is_issued (op_Send sendbuf count dest) = True"
| "is_issued (op_Recv recvbuf count src) = True"
| "is_issued (op_SendRecv sendbuf send_count dest recvbuf recv_count src) = True"
| "is_issued (op_Allgather sendbuf recvbuf count algo) =
     (count \<noteq> 0 \<and> algo = HostTransferCollectiveAlgorithm_automatic)"
| "is_issued (op_Alltoall sendbuf recvbuf count algo) =
     (count \<noteq> 0 \<and> algo = HostTransferCollectiveAlgorithm_automatic)"
| "is_issued (op_Bcast buf count root algo) =
     (count \<noteq> 0 \<and> algo = HostTransferCollectiveAlgorithm_automatic)"
| "is_issued (op_Gather sendbuf recvbuf count root algo) =
     (count \<noteq> 0 \<and> algo = HostTransferCollectiveAlgorithm_automatic)"
| "is_issued (op_Reduce sendbuf recvbuf count op root algo) =
     (count \<noteq> 0 \<and> algo = HostTransferCollectiveAlgorithm_automatic)"
| "is_issued (op_Reduce_scatter sendbuf recvbuf count op algo) =
     (count \<noteq> 0 \<and> algo = HostTransferCollectiveAlgorithm_automatic)"
| "is_issued (op_Scatter sendbuf recvbuf count root algo) =
     (count \<noteq> 0 \<and> algo = HostTransferCollectiveAlgorithm_automatic)"
| "is_issued (op_Allreduce_inplace recvbuf count op algo) =
     (count \<noteq> 0 \<and> (algo = HostTransferAllreduceAlgorithm_automatic \<or>
                   algo = HostTransferAllreduceAlgorithm_host_transfer))"
| "is_issued (op_Allgather_inplace buffer count algo) =
     (count \<noteq> 0 \<and> algo = HostTransferCollectiveAlgorithm_automatic)"
| "is_issued (op_Alltoall_inplace buffer count algo) =
     (count \<noteq> 0 \<and> algo = HostTransferCollectiveAlgorithm_automatic)"
| "is_issued (op_Gather_inplace buffer count root algo) =
     (count \<noteq> 0 \<and> algo = HostTransferCollectiveAlgorithm_automatic)"
| "is_issued (op_Reduce_inplace buffer count op root algo) =
     (count \<noteq> 0 \<and> algo = HostTransferCollectiveAlgorithm_automatic)"
| "is_issued (op_Reduce_scatter_inplace buffer count op algo) =
     (count \<noteq> 0 \<and> algo = HostTransferCollectiveAlgorithm_automatic)"
| "is_issued (op_Scatter_inplace buffer count root algo) =
     (count \<noteq> 0 \<and> algo = HostTransferCollectiveAlgorithm_automatic)"

section \<open>Reading the enqueued work\<close>

text \<open>The stream a state was constructed on, and the stream an entry was enqueued on.\<close>

fun state_stream :: "al_state \<Rightarrow> cudaStream_t" where
  "state_stream (AllreduceAlState sendbuf recvbuf count op comm stream) = stream"
| "state_stream (SendAlState sendbuf count dest comm stream) = stream"
| "state_stream (RecvAlState recvbuf count src comm stream) = stream"
| "state_stream (SendRecvAlState sendbuf send_count dest recvbuf recv_count src comm stream) =
     stream"
| "state_stream (AllgatherAlState sendbuf recvbuf count comm stream) = stream"
| "state_stream (AlltoallAlState sendbuf recvbuf count comm stream) = stream"
| "state_stream (BcastAlState buf count root comm stream) = stream"
| "state_stream (GatherState g) = gather_stream g"
| "state_stream (ReduceAlState sendbuf recvbuf count op root comm stream) = stream"
| "state_stream (ReduceScatterAlState sendbuf recvbuf count op comm stream) = stream"
| "state_stream (ScatterAlState sendbuf recvbuf count root comm stream) = stream"
| "state_stream (BarrierState b) = barrier_stream b"

fun stream_of :: "device_call \<Rightarrow> cudaStream_t" where
  "stream_of (cudaEventRecord event stream) = stream"
| "stream_of (cudaStreamWaitEvent stream event) = stream"
| "stream_of (cudaMemcpyAsync dst src n kind stream) = stream"
| "stream_of (start_event_record stream) = stream"
| "stream_of (end_event_record stream) = stream"
| "stream_of (gpu_wait_wait stream) = stream"
| "stream_of (state_construction st) = state_stream st"

text \<open>
  The two runtime calls by which \<open>sync_internal_stream_with_comm\<close> and
  \<open>setup_completion_event\<close> order one stream after another.
\<close>

fun is_sync_call :: "device_call \<Rightarrow> bool" where
  "is_sync_call (cudaEventRecord event stream) = True"
| "is_sync_call (cudaStreamWaitEvent stream event) = True"
| "is_sync_call c = False"

text \<open>What has been enqueued, and which states have been queued, between two states.\<close>

definition new_entries :: "world \<Rightarrow> world \<Rightarrow> device_call list" where
  "new_entries w w' = drop (length (enqueued w)) (enqueued w')"

definition new_states :: "world \<Rightarrow> world \<Rightarrow> al_state list" where
  "new_states w w' = drop (length (progress_queue w)) (progress_queue w')"

section \<open>The construction sequence the specification describes\<close>

text \<open>
  The sequence in the specification's words: on the stream of the state, (i) a copy
  from device to host into the pinned staging buffer, (ii) the record of the start
  event, (iii) the wait on the sync flag, and then (iv) a copy from host to device,
  out of the staging buffer, and the record of the end event if the variant signals
  at the end, nothing more if it does not. The staging buffer is given by its first
  address and its number of elements.
\<close>

fun is_copy :: "cudaMemcpyKind \<Rightarrow> cudaStream_t \<Rightarrow> ptr \<times> nat \<Rightarrow> device_call \<Rightarrow> bool" where
  "is_copy kind stream (base, len) (cudaMemcpyAsync dst src n kind' stream') =
     (kind' = kind \<and> stream' = stream \<and>
      (if kind = cudaMemcpyDeviceToHost
       then base \<le> dst \<and> dst + n \<le> base + len
       else base \<le> src \<and> src + n \<le> base + len))"
| "is_copy kind stream staging c = False"

fun spec_construction_sequence ::
  "bool \<Rightarrow> cudaStream_t \<Rightarrow> ptr \<times> nat \<Rightarrow> device_call list \<Rightarrow> bool" where
  "spec_construction_sequence signals_at_end stream staging (c1 # c2 # c3 # cs) =
     (is_copy cudaMemcpyDeviceToHost stream staging c1 \<and>
      c2 = start_event_record stream \<and>
      c3 = gpu_wait_wait stream \<and>
      (if signals_at_end
       then (case cs of
               [c4, c5] \<Rightarrow>
                 is_copy cudaMemcpyHostToDevice stream staging c4 \<and>
                 c5 = end_event_record stream
             | _ \<Rightarrow> False)
       else cs = []))"
| "spec_construction_sequence signals_at_end stream staging cs = False"

text \<open>
  Modelled from the spec: which variant a state is, its base class being declared in
  aluminum/ht/base_state.hpp, which is not among the sources. \<open>GatherAlState\<close> derives
  from \<open>HostTransferCollectiveSignalNonRootEarlyState\<close> ("signal-at-end: ... root of
  reduce/gather"; "signal-non-root-early: ... gather non-root"): it signals at the
  end on the root only. \<open>ht::BarrierAlState\<close> derives from
  \<open>HostTransferCollectiveSignalAtEndState\<close>: it signals at the end.
\<close>

definition GatherAlState_signals_at_end :: "GatherAlState \<Rightarrow> bool" where
  "GatherAlState_signals_at_end g = gather_is_root g"

definition BarrierAlState_signals_at_end :: "BarrierAlState \<Rightarrow> bool" where
  "BarrierAlState_signals_at_end b = True"

section \<open>The transport call of the gather state\<close>

text \<open>
  \<open>MPI_Igather(sendbuf, sendcount, sendtype, recvbuf, recvcount, recvtype, root, comm,
  request)\<close>: the two datatypes are \<open>mpi::TypeMap<T>()\<close> in every call and the request
  is \<open>get_mpi_req()\<close>; they are left out. The two counts are \<open>int\<close>s.
\<close>

datatype mpi_sendbuf = MPI_IN_PLACE | mpi_buffer ptr

datatype mpi_call =
    MPI_Igather mpi_sendbuf int ptr int int MPI_Comm
  | MPI_Ibarrier MPI_Comm



text \<open>\<open>ht::BarrierAlState::start_mpi_op\<close>.\<close>

definition BarrierAlState_start_mpi_op :: "BarrierAlState \<Rightarrow> mpi_call" where
  "BarrierAlState_start_mpi_op this = MPI_Ibarrier (barrier_comm this)"




section \<open>Example states\<close>

text \<open>
  A host just after \<open>init()\<close>: five distinct internal streams, nothing enqueued, a
  runtime that accepts every call, no event complete, every request variable null.
\<close>

definition initial_world :: world where
  "initial_world =
     \<lparr>enqueued = [], cuda_status = (\<lambda>c. cudaSuccess), event_status = (\<lambda>e. cudaErrorNotReady),
      internal_streams = (\<lambda>i. 101 + i), cur_stream = 0, sync_event = 0, event_pool = [],
      events_created = 1, pinned_brk = 0, progress_queue = [], requests = (\<lambda>r. null_req),
      request_heap = (\<lambda>p. \<lparr>op_event = 0, orig_stream = 0\<rparr>), use_count = (\<lambda>p. 0),
      requests_made = 0\<rparr>"

text \<open>
  The same host later: the request variable 7 is the only owner of a request (object
  0) on event 3 and user stream 42, four events have been created, and the device has
  completed event 3.
\<close>

definition completed_world :: world where
  "completed_world =
     initial_world
       \<lparr>event_status := (\<lambda>e. if e = 3 then cudaSuccess else cudaErrorNotReady),
        events_created := 4,
        requests := (\<lambda>r. if r = 7 then Some 0 else null_req),
        request_heap := (\<lambda>p. \<lparr>op_event = 3, orig_stream = 42\<rparr>),
        use_count := (\<lambda>p. if p = 0 then 1 else 0),
        requests_made := 1\<rparr>"

text \<open>Rank 2 of a communicator of 4 ranks, its user stream being stream 42.\<close>

definition example_comm :: comm_type where
  "example_comm = \<lparr>rank = 2, size_comm = 4, get_stream = 42, get_comm = 9\<rparr>"


section \<open>Requests: \<open>Test\<close> and \<open>Wait\<close>\<close>

text \<open>
  C1. \<open>Wait\<close> on a null request returns at once and leaves the host's state as it was:
  nothing is enqueued on any stream. On a non-null request it makes one runtime call,
  \<open>cudaStreamWaitEvent\<close> of the request's \<open>op_event\<close> on the request's \<open>orig_stream\<close>;
  when the runtime accepts the call, \<open>Wait\<close> returns and the only change of the state
  is that this wait is the newest entry of the enqueued device work. The call only
  enqueues: \<open>Wait\<close> has no loop and makes no synchronising call, so the host is not held
  until the event completes. (A call the runtime refuses is raised by \<open>AL_CHECK_CUDA\<close>,
  with nothing enqueued.)
\<close>

theorem Wait_enqueues_stream_wait:
  "Wait req w =
     (case requests w req of
        None \<Rightarrow> (Normal (), w)
      | Some p \<Rightarrow>
          (let rq = request_heap w p in
           if cuda_status w (cudaStreamWaitEvent (orig_stream rq) (op_event rq)) = cudaSuccess
           then (Normal (),
                 w\<lparr>enqueued := enqueued w @ [cudaStreamWaitEvent (orig_stream rq) (op_event rq)]\<rparr>)
           else (Raise (cuda_error (cudaStreamWaitEvent (orig_stream rq) (op_event rq))), w)))"
  by (simp add: Wait_def AL_CHECK_CUDA_def Let_def split: option.split)

text \<open>
  C2. \<open>Test\<close> returns true exactly when the request is null or \<open>cudaEventQuery\<close> of its
  \<open>op_event\<close> answers \<open>cudaSuccess\<close>. The request variable is null afterwards when it
  returns true and keeps its value when it returns false. The state as a whole: on a
  null request and on a false result it is unchanged; on a true result for a non-null
  request the variable is null, the request object has one owner less, and if the
  variable was its last owner the destructor has put \<open>op_event\<close> back at the front of
  the event pool. Nothing is enqueued on any stream.
\<close>

theorem Test_true_iff_null_or_complete:
  "fst (Test req w) =
     (case requests w req of
        None \<Rightarrow> True
      | Some p \<Rightarrow> event_status w (op_event (request_heap w p)) = cudaSuccess) \<and>
   requests (snd (Test req w)) req = (if fst (Test req w) then null_req else requests w req) \<and>
   snd (Test req w) =
     (case requests w req of
        None \<Rightarrow> w
      | Some p \<Rightarrow>
          if event_status w (op_event (request_heap w p)) = cudaSuccess
          then w\<lparr>requests := (requests w)(req := null_req),
                 use_count := (use_count w)(p := use_count w p - 1),
                 event_pool := (if use_count w p \<le> 1
                                then op_event (request_heap w p) # event_pool w
                                else event_pool w)\<rparr>
          else w)"
  by (simp add: Test_def assign_req_def shared_ptr_release_def destroy_HostTransferRequest_def
      release_cuda_event_def null_req_def Let_def split: option.split)

lemma Test_null: "requests w req = None \<Longrightarrow> Test req w = (True, w)"
  by (simp add: Test_def)

lemma Wait_null: "requests w req = None \<Longrightarrow> Wait req w = (Normal (), w)"
  by (simp add: Wait_def)

lemma Test_true_null: "fst (Test req w) \<Longrightarrow> requests (snd (Test req w)) req = None"
  by (auto simp: Test_def assign_req_def shared_ptr_release_def destroy_HostTransferRequest_def
      release_cuda_event_def null_req_def Let_def split: option.splits if_splits)

lemma run_calls_null:
  "requests w req = None \<Longrightarrow>
   run_calls req cs w =
     (map (\<lambda>c. case c of call_Test \<Rightarrow> Test_returned True | call_Wait \<Rightarrow> Wait_returned) cs, w)"
proof (induction cs)
  case Nil
  then show ?case by simp
next
  case (Cons c cs)
  then show ?case by (cases c) (simp_all add: Test_null Wait_null)
qed

text \<open>
  C3. Once \<open>Test\<close> has returned true for a request variable, any later run of \<open>Test\<close> and
  \<open>Wait\<close> calls on that variable goes as follows: every \<open>Test\<close> returns true, every
  \<open>Wait\<close> returns without raising, and the state at the end is the state right after
  the first \<open>Test\<close>, so no call of the run has enqueued anything.
\<close>

theorem Test_then_Test_Wait_idempotent:
  assumes "fst (Test req w)"
  shows "run_calls req cs (snd (Test req w)) =
     (map (\<lambda>c. case c of call_Test \<Rightarrow> Test_returned True | call_Wait \<Rightarrow> Wait_returned) cs,
      snd (Test req w))"
  using assms by (intro run_calls_null Test_true_null)

theorem Test_then_Test_Wait_idempotent_witness:
  "fst (Test 7 completed_world) \<and>
   requests completed_world 7 \<noteq> null_req \<and>
   run_calls 7 [call_Test, call_Wait, call_Test] (snd (Test 7 completed_world)) =
     ([Test_returned True, Wait_returned, Test_returned True], snd (Test 7 completed_world))"
proof -
  have h: "fst (Test 7 completed_world)"
    by (simp add: Test_def completed_world_def initial_world_def Let_def)
  have n: "requests completed_world 7 \<noteq> null_req"
    by (simp add: completed_world_def null_req_def)
  show ?thesis
    using h n Test_then_Test_Wait_idempotent [OF h, of "[call_Test, call_Wait, call_Test]"]
    by simp
qed

section \<open>The internal streams\<close>

lemma after_calls_cur_stream: "cur_stream (after_calls n w) = cur_stream w + of_nat n"
  by (induction n arbitrary: w) (simp_all add: get_internal_stream_def)

lemma after_calls_internal_streams: "internal_streams (after_calls n w) = internal_streams w"
  by (induction n arbitrary: w) (simp_all add: get_internal_stream_def)

lemma nth_internal_stream_eq:
  "nth_internal_stream n w =
     internal_streams w (unat (cur_stream w + of_nat n) mod num_internal_streams)"
  by (simp add: nth_internal_stream_def get_internal_stream_def after_calls_cur_stream
      after_calls_internal_streams)

text \<open>
  C8. The pool has exactly 5 streams, and the \<open>n\<close>-th call of \<open>get_internal_stream()\<close>
  (counting from 0, the counter starting at 0) returns the stream at index \<open>n mod 5\<close>
  of the pool, for every \<open>n\<close> the 64-bit counter can count, that is, every \<open>n\<close> below
  \<open>2^64\<close>: more calls than that are beyond any execution.
\<close>

theorem round_robin_below_wrap:
  assumes "cur_stream w = 0" and "n < 2 ^ 64"
  shows "num_internal_streams = 5 \<and>
         nth_internal_stream n w = internal_streams w (n mod num_internal_streams)"
proof -
  have "unat (of_nat n :: 64 word) = n"
    using assms(2) by (simp add: unat_of_nat)
  then show ?thesis
    using assms(1) by (simp add: nth_internal_stream_eq num_internal_streams_def)
qed

theorem round_robin_below_wrap_witness:
  "cur_stream initial_world = 0 \<and> (7::nat) < 2 ^ 64 \<and>
   nth_internal_stream 7 initial_world = internal_streams initial_world 2"
proof -
  have c: "cur_stream initial_world = 0" by (simp add: initial_world_def)
  have b: "(7::nat) < 2 ^ 64" by simp
  show ?thesis
    using c b round_robin_below_wrap [OF c b] by (simp add: num_internal_streams_def)
qed

section \<open>Auxiliary equations\<close>

text \<open>
  What the private helpers and the constructors do, as unconditional equations, and
  what issuing an operation leaves untouched.
\<close>

lemmas do_defs = do_allreduce_def do_send_def do_recv_def do_sendrecv_def do_allgather_def
  do_alltoall_def do_bcast_def do_reduce_def do_reduce_scatter_def do_scatter_def

lemma new_state_eq:
  "new_state st w = (Normal st, w\<lparr>enqueued := enqueued w @ [state_construction st]\<rparr>)"
  by (simp add: new_state_def then_do_def enqueue_call_def return_al_def)

lemma issue_new_state:
  "then_do (new_state st) progress_enqueue w =
     (Normal (), w\<lparr>enqueued := enqueued w @ [state_construction st],
                   progress_queue := progress_queue w @ [st]\<rparr>)"
  by (simp add: new_state_eq then_do_def progress_enqueue_def)

lemma do_eqs:
  "do_allreduce sendbuf recvbuf count op comm stream w =
     (Normal (), w\<lparr>enqueued := enqueued w @
                      [state_construction (AllreduceAlState sendbuf recvbuf count op comm stream)],
                   progress_queue := progress_queue w @
                      [AllreduceAlState sendbuf recvbuf count op comm stream]\<rparr>)"
  "do_send sendbuf count dest comm stream w =
     (Normal (), w\<lparr>enqueued := enqueued w @
                      [state_construction (SendAlState sendbuf count dest comm stream)],
                   progress_queue := progress_queue w @
                      [SendAlState sendbuf count dest comm stream]\<rparr>)"
  "do_recv recvbuf count src comm stream w =
     (Normal (), w\<lparr>enqueued := enqueued w @
                      [state_construction (RecvAlState recvbuf count src comm stream)],
                   progress_queue := progress_queue w @
                      [RecvAlState recvbuf count src comm stream]\<rparr>)"
  "do_sendrecv sendbuf send_count dest recvbuf recv_count src comm stream w =
     (Normal (), w\<lparr>enqueued := enqueued w @
                      [state_construction (SendRecvAlState sendbuf send_count dest
                         recvbuf recv_count src comm stream)],
                   progress_queue := progress_queue w @
                      [SendRecvAlState sendbuf send_count dest recvbuf recv_count src comm stream]\<rparr>)"
  "do_allgather sendbuf recvbuf count comm stream w =
     (Normal (), w\<lparr>enqueued := enqueued w @
                      [state_construction (AllgatherAlState sendbuf recvbuf count comm stream)],
                   progress_queue := progress_queue w @
                      [AllgatherAlState sendbuf recvbuf count comm stream]\<rparr>)"
  "do_alltoall sendbuf recvbuf count comm stream w =
     (Normal (), w\<lparr>enqueued := enqueued w @
                      [state_construction (AlltoallAlState sendbuf recvbuf count comm stream)],
                   progress_queue := progress_queue w @
                      [AlltoallAlState sendbuf recvbuf count comm stream]\<rparr>)"
  "do_bcast buf count root comm stream w =
     (Normal (), w\<lparr>enqueued := enqueued w @
                      [state_construction (BcastAlState buf count root comm stream)],
                   progress_queue := progress_queue w @
                      [BcastAlState buf count root comm stream]\<rparr>)"
  "do_reduce sendbuf recvbuf count op root comm stream w =
     (Normal (), w\<lparr>enqueued := enqueued w @
                      [state_construction (ReduceAlState sendbuf recvbuf count op root comm stream)],
                   progress_queue := progress_queue w @
                      [ReduceAlState sendbuf recvbuf count op root comm stream]\<rparr>)"
  "do_reduce_scatter sendbuf recvbuf count op comm stream w =
     (Normal (), w\<lparr>enqueued := enqueued w @
                      [state_construction (ReduceScatterAlState sendbuf recvbuf count op comm stream)],
                   progress_queue := progress_queue w @
                      [ReduceScatterAlState sendbuf recvbuf count op comm stream]\<rparr>)"
  "do_scatter sendbuf recvbuf count root comm stream w =
     (Normal (), w\<lparr>enqueued := enqueued w @
                      [state_construction (ScatterAlState sendbuf recvbuf count root comm stream)],
                   progress_queue := progress_queue w @
                      [ScatterAlState sendbuf recvbuf count root comm stream]\<rparr>)"
  by (simp_all add: do_defs issue_new_state)

lemma sync_eq:
  "sync_internal_stream_with_comm s comm w =
     (if cuda_status w (cudaEventRecord (sync_event w) (get_stream comm)) = cudaSuccess
      then if cuda_status w (cudaStreamWaitEvent s (sync_event w)) = cudaSuccess
           then (Normal (),
                 w\<lparr>enqueued := enqueued w @ [cudaEventRecord (sync_event w) (get_stream comm),
                                             cudaStreamWaitEvent s (sync_event w)]\<rparr>)
           else (Raise (cuda_error (cudaStreamWaitEvent s (sync_event w))),
                 w\<lparr>enqueued := enqueued w @ [cudaEventRecord (sync_event w) (get_stream comm)]\<rparr>)
      else (Raise (cuda_error (cudaEventRecord (sync_event w) (get_stream comm))), w))"
  by (simp add: sync_internal_stream_with_comm_def then_do_def AL_CHECK_CUDA_def)

lemma get_cuda_event_frame:
  "enqueued (snd (get_cuda_event w)) = enqueued w"
  "cuda_status (snd (get_cuda_event w)) = cuda_status w"
  "requests (snd (get_cuda_event w)) = requests w"
  "progress_queue (snd (get_cuda_event w)) = progress_queue w"
  "cur_stream (snd (get_cuda_event w)) = cur_stream w"
  "request_heap (snd (get_cuda_event w)) = request_heap w"
  "use_count (snd (get_cuda_event w)) = use_count w"
  "requests_made (snd (get_cuda_event w)) = requests_made w"
  by (simp_all add: get_cuda_event_def split: list.split)

lemma get_cuda_event_upd:
  "get_cuda_event (w\<lparr>enqueued := q\<rparr>) =
     (fst (get_cuda_event w), (snd (get_cuda_event w))\<lparr>enqueued := q\<rparr>)"
  "get_cuda_event (w\<lparr>cur_stream := c\<rparr>) =
     (fst (get_cuda_event w), (snd (get_cuda_event w))\<lparr>cur_stream := c\<rparr>)"
  "get_cuda_event (w\<lparr>progress_queue := p\<rparr>) =
     (fst (get_cuda_event w), (snd (get_cuda_event w))\<lparr>progress_queue := p\<rparr>)"
  "get_cuda_event (w\<lparr>pinned_brk := b\<rparr>) =
     (fst (get_cuda_event w), (snd (get_cuda_event w))\<lparr>pinned_brk := b\<rparr>)"
  by (simp_all add: get_cuda_event_def split: list.split)

lemma setup_eq:
  "setup_completion_event s comm req w =
     (let event = fst (get_cuda_event w);
          p = requests_made w;
          w3 = (snd (get_cuda_event w))
                 \<lparr>enqueued := enqueued w @ [cudaEventRecord event s],
                  requests := (requests w)(req := Some p),
                  request_heap := (request_heap w)
                    (p := \<lparr>op_event = event, orig_stream = get_stream comm\<rparr>),
                  use_count := (use_count w)(p := 1),
                  requests_made := p + 1\<rparr>
      in if cuda_status w (cudaEventRecord event s) = cudaSuccess
         then (Normal (),
               case requests w req of
                 None \<Rightarrow> w3
               | Some q \<Rightarrow>
                   w3\<lparr>use_count := (use_count w3)(q := use_count w3 q - 1),
                      event_pool := (if use_count w3 q \<le> 1
                                     then op_event (request_heap w3 q) # event_pool w3
                                     else event_pool w3)\<rparr>)
         else (Raise (cuda_error (cudaEventRecord event s)), snd (get_cuda_event w)))"
proof -
  obtain ev w1 where g: "get_cuda_event w = (ev, w1)"
    by (cases "get_cuda_event w")
  have f: "enqueued w1 = enqueued w" "cuda_status w1 = cuda_status w" "requests w1 = requests w"
    "request_heap w1 = request_heap w" "use_count w1 = use_count w"
    "requests_made w1 = requests_made w"
    using get_cuda_event_frame [of w] g by simp_all
  show ?thesis
    by (simp add: setup_completion_event_def then_do_def AL_CHECK_CUDA_def make_shared_def
        assign_req_def shared_ptr_release_def destroy_HostTransferRequest_def
        release_cuda_event_def Let_def g f split: option.split)
qed

lemma initial_world_simps:
  "enqueued initial_world = []"
  "cuda_status initial_world = (\<lambda>c. cudaSuccess)"
  "internal_streams initial_world = (\<lambda>i. 101 + i)"
  "cur_stream initial_world = 0"
  "sync_event initial_world = 0"
  "event_pool initial_world = []"
  "events_created initial_world = 1"
  "pinned_brk initial_world = 0"
  "progress_queue initial_world = []"
  "requests initial_world = (\<lambda>r. None)"
  "requests_made initial_world = 0"
  by (simp_all add: initial_world_def null_req_def)

lemma completed_world_simps:
  "enqueued completed_world = []"
  "cuda_status completed_world = (\<lambda>c. cudaSuccess)"
  "internal_streams completed_world = (\<lambda>i. 101 + i)"
  "cur_stream completed_world = 0"
  "sync_event completed_world = 0"
  "event_pool completed_world = []"
  "events_created completed_world = 4"
  "progress_queue completed_world = []"
  "requests completed_world = (\<lambda>r. if r = 7 then Some 0 else None)"
  "request_heap completed_world = (\<lambda>p. \<lparr>op_event = 3, orig_stream = 42\<rparr>)"
  "use_count completed_world = (\<lambda>p. if p = 0 then 1 else 0)"
  "requests_made completed_world = 1"
  by (simp_all add: completed_world_def initial_world_def null_req_def fun_eq_iff)

lemma get_cuda_event_initial:
  "get_cuda_event initial_world = (1, initial_world\<lparr>events_created := 2\<rparr>)"
  "get_cuda_event completed_world = (4, completed_world\<lparr>events_created := 5\<rparr>)"
  by (simp_all add: get_cuda_event_def initial_world_simps completed_world_simps)

lemma get_cuda_event_pool:
  "event_pool w' = event_pool w \<Longrightarrow> events_created w' = events_created w \<Longrightarrow>
   fst (get_cuda_event w') = fst (get_cuda_event w)"
  by (simp add: get_cuda_event_def split: list.split)

lemma new_GatherAlState_eq:
  "new_GatherAlState sendbuf recvbuf count' root' comm' stream' w =
     (let is_root = (int (rank comm') = root');
          host_mem = pinned_brk w;
          w1 = w\<lparr>pinned_brk := pinned_brk w + (if is_root then size_comm comm' * count' else count')\<rparr>;
          c1 = (if is_root
                then cudaMemcpyAsync (host_mem + rank comm' * count')
                       (if sendbuf = recvbuf then sendbuf + rank comm' * count' else sendbuf)
                       count' cudaMemcpyDeviceToHost stream'
                else cudaMemcpyAsync host_mem sendbuf count' cudaMemcpyDeviceToHost stream');
          c4 = cudaMemcpyAsync recvbuf host_mem (count' * size_comm comm')
                 cudaMemcpyHostToDevice stream';
          this = \<lparr>gather_is_root = is_root, gather_stream = stream', gather_host_mem = host_mem,
                  gather_count = count', gather_root = root', gather_comm = get_comm comm'\<rparr>
      in if cuda_status w c1 \<noteq> cudaSuccess then (Raise (cuda_error c1), w1)
         else if \<not> is_root
         then (Normal this,
               w1\<lparr>enqueued := enqueued w @
                     [c1, start_event_record stream', gpu_wait_wait stream']\<rparr>)
         else if cuda_status w c4 \<noteq> cudaSuccess
         then (Raise (cuda_error c4),
               w1\<lparr>enqueued := enqueued w @
                     [c1, start_event_record stream', gpu_wait_wait stream']\<rparr>)
         else (Normal this,
               w1\<lparr>enqueued := enqueued w @
                     [c1, start_event_record stream', gpu_wait_wait stream', c4,
                      end_event_record stream']\<rparr>))"
  by (simp add: new_GatherAlState_def mempool_allocate_def Let_def then_do_def AL_CHECK_CUDA_def
      enqueue_call_def return_al_def)

lemma do_gather_shape:
  "\<exists>r b xs q. do_gather sendbuf recvbuf count root comm s w =
       (r, w\<lparr>pinned_brk := b, enqueued := enqueued w @ xs,
              progress_queue := progress_queue w @ q\<rparr>) \<and>
     list_all (\<lambda>x. stream_of x = s) xs \<and> filter is_sync_call xs = [] \<and>
     (r = Normal () \<longrightarrow> map state_stream q = [s])"
proof -
  let ?c1 = "if int (rank comm) = root
             then cudaMemcpyAsync (pinned_brk w + rank comm * count)
                    (if sendbuf = recvbuf then sendbuf + rank comm * count else sendbuf)
                    count cudaMemcpyDeviceToHost s
             else cudaMemcpyAsync (pinned_brk w) sendbuf count cudaMemcpyDeviceToHost s"
  let ?c4 = "cudaMemcpyAsync recvbuf (pinned_brk w) (count * size_comm comm)
               cudaMemcpyHostToDevice s"
  consider (a) "cuda_status w ?c1 \<noteq> cudaSuccess"
    | (b) "cuda_status w ?c1 = cudaSuccess" "int (rank comm) \<noteq> root"
    | (c) "cuda_status w ?c1 = cudaSuccess" "int (rank comm) = root"
          "cuda_status w ?c4 \<noteq> cudaSuccess"
    | (d) "cuda_status w ?c1 = cudaSuccess" "int (rank comm) = root"
          "cuda_status w ?c4 = cudaSuccess"
    by blast
  then show ?thesis
  proof cases
    case a
    then have "do_gather sendbuf recvbuf count root comm s w =
        (Raise (cuda_error ?c1),
         w\<lparr>pinned_brk := pinned_brk w +
               (if int (rank comm) = root then size_comm comm * count else count),
           enqueued := enqueued w @ [], progress_queue := progress_queue w @ []\<rparr>)"
      by (simp add: do_gather_def new_GatherAlState_eq then_do_def Let_def)
    then show ?thesis by (intro exI conjI) (assumption, simp_all)
  next
    case b
    then have "do_gather sendbuf recvbuf count root comm s w =
        (Normal (),
         w\<lparr>pinned_brk := pinned_brk w + count,
           enqueued := enqueued w @ [?c1, start_event_record s, gpu_wait_wait s],
           progress_queue := progress_queue w @
             [GatherState \<lparr>gather_is_root = False, gather_stream = s,
                gather_host_mem = pinned_brk w, gather_count = count, gather_root = root,
                gather_comm = get_comm comm\<rparr>]\<rparr>)"
      by (simp add: do_gather_def new_GatherAlState_eq then_do_def Let_def progress_enqueue_def)
    then show ?thesis using b by (intro exI conjI) (assumption, simp_all)
  next
    case c
    then have "do_gather sendbuf recvbuf count root comm s w =
        (Raise (cuda_error ?c4),
         w\<lparr>pinned_brk := pinned_brk w + size_comm comm * count,
           enqueued := enqueued w @ [?c1, start_event_record s, gpu_wait_wait s],
           progress_queue := progress_queue w @ []\<rparr>)"
      by (simp add: do_gather_def new_GatherAlState_eq then_do_def Let_def)
    then show ?thesis using c by (intro exI conjI) (assumption, simp_all)
  next
    case d
    then have "do_gather sendbuf recvbuf count root comm s w =
        (Normal (),
         w\<lparr>pinned_brk := pinned_brk w + size_comm comm * count,
           enqueued := enqueued w @
             [?c1, start_event_record s, gpu_wait_wait s, ?c4, end_event_record s],
           progress_queue := progress_queue w @
             [GatherState \<lparr>gather_is_root = True, gather_stream = s,
                gather_host_mem = pinned_brk w, gather_count = count, gather_root = root,
                gather_comm = get_comm comm\<rparr>]\<rparr>)"
      by (simp add: do_gather_def new_GatherAlState_eq then_do_def Let_def progress_enqueue_def)
    then show ?thesis using d by (intro exI conjI) (assumption, simp_all)
  qed
qed

lemma issue_on_shape:
  "\<exists>r b xs q. issue_on c comm s w =
       (r, w\<lparr>pinned_brk := b, enqueued := enqueued w @ xs,
              progress_queue := progress_queue w @ q\<rparr>) \<and>
     list_all (\<lambda>x. stream_of x = s) xs \<and> filter is_sync_call xs = [] \<and>
     (r = Normal () \<longrightarrow> map state_stream q = [s])"
proof (cases c)
  case (op_Gather sendbuf recvbuf count root algo)
  then show ?thesis using do_gather_shape [of sendbuf recvbuf count root comm s w] by simp
next
  case (op_Gather_inplace buffer count root algo)
  then show ?thesis using do_gather_shape [of buffer buffer count root comm s w] by simp
qed (force simp: do_eqs intro!: exI [where x = "pinned_brk w"])+

lemma issue_on_frame:
  "requests (snd (issue_on c comm s w)) = requests w"
  "cur_stream (snd (issue_on c comm s w)) = cur_stream w"
  "event_pool (snd (issue_on c comm s w)) = event_pool w"
  "events_created (snd (issue_on c comm s w)) = events_created w"
  "cuda_status (snd (issue_on c comm s w)) = cuda_status w"
  "sync_event (snd (issue_on c comm s w)) = sync_event w"
  "request_heap (snd (issue_on c comm s w)) = request_heap w"
  "use_count (snd (issue_on c comm s w)) = use_count w"
  "requests_made (snd (issue_on c comm s w)) = requests_made w"
  "enqueued (snd (issue_on c comm s w)) = enqueued w @ new_entries w (snd (issue_on c comm s w))"
  "list_all (\<lambda>x. stream_of x = s) (new_entries w (snd (issue_on c comm s w)))"
  "filter is_sync_call (new_entries w (snd (issue_on c comm s w))) = []"
  "fst (issue_on c comm s w) = Normal () \<Longrightarrow>
     map state_stream (new_states w (snd (issue_on c comm s w))) = [s]"
  using issue_on_shape [of c comm s w] by (auto simp: new_entries_def new_states_def)

lemma blocking_issue:
  "is_issued c \<Longrightarrow> blocking_form c comm = issue_on c comm (get_stream comm)"
  by (cases c)
    (simp_all add: Allreduce_def Send_def Recv_def SendRecv_def Allgather_def Alltoall_def
      Bcast_def Gather_def Reduce_def Reduce_scatter_def Scatter_def Allreduce_inplace_def
      Allgather_inplace_def Alltoall_inplace_def Gather_inplace_def Reduce_inplace_def
      Reduce_scatter_inplace_def Scatter_inplace_def)

lemma nonblocking_pipeline:
  "is_issued c \<Longrightarrow>
   nonblocking_form c comm req w =
     (case get_internal_stream w of (s, w1) \<Rightarrow>
        then_do (sync_internal_stream_with_comm s comm)
        (\<lambda>_. then_do (issue_on c comm s)
        (\<lambda>_. setup_completion_event s comm req)) w1)"
  by (cases c)
    (simp_all add: NonblockingAllreduce_def NonblockingSend_def NonblockingRecv_def
      NonblockingSendRecv_def NonblockingAllgather_def NonblockingAlltoall_def
      NonblockingBcast_def NonblockingGather_def NonblockingReduce_def
      NonblockingReduce_scatter_def NonblockingScatter_def NonblockingAllreduce_inplace_def
      NonblockingAllgather_inplace_def NonblockingAlltoall_inplace_def
      NonblockingGather_inplace_def NonblockingReduce_inplace_def
      NonblockingReduce_scatter_inplace_def NonblockingScatter_inplace_def)

lemma new_BarrierAlState_eq:
  "new_BarrierAlState comm' stream' w =
     (Normal \<lparr>barrier_stream = stream', barrier_comm = get_comm comm'\<rparr>,
      w\<lparr>enqueued := enqueued w @ [start_event_record stream', gpu_wait_wait stream']\<rparr>)"
  by (simp add: new_BarrierAlState_def then_do_def enqueue_call_def return_al_def)




section \<open>The public operations\<close>

text \<open>
  C4. Each of the eight non-blocking collectives, and each single-buffer overload,
  called with element count zero returns normally and leaves the whole state of the
  host as it was: no state is queued for the progress engine, nothing is enqueued on
  any stream (so no buffer is written), no internal stream is drawn, and the request
  variable keeps its value.
\<close>

theorem nonblocking_zero_count_returns_unchanged:
  "NonblockingAllreduce sendbuf recvbuf 0 op comm req aalgo w = (Normal (), w) \<and>
   NonblockingAllgather sendbuf recvbuf 0 comm req algo w = (Normal (), w) \<and>
   NonblockingAlltoall sendbuf recvbuf 0 comm req algo w = (Normal (), w) \<and>
   NonblockingBcast buf 0 root comm req algo w = (Normal (), w) \<and>
   NonblockingGather sendbuf recvbuf 0 root comm req algo w = (Normal (), w) \<and>
   NonblockingReduce sendbuf recvbuf 0 op root comm req algo w = (Normal (), w) \<and>
   NonblockingReduce_scatter sendbuf recvbuf 0 op comm req algo w = (Normal (), w) \<and>
   NonblockingScatter sendbuf recvbuf 0 root comm req algo w = (Normal (), w) \<and>
   NonblockingAllreduce_inplace recvbuf 0 op comm req aalgo w = (Normal (), w) \<and>
   NonblockingAllgather_inplace buffer 0 comm req algo w = (Normal (), w) \<and>
   NonblockingAlltoall_inplace buffer 0 comm req algo w = (Normal (), w) \<and>
   NonblockingGather_inplace buffer 0 root comm req algo w = (Normal (), w) \<and>
   NonblockingReduce_inplace buffer 0 op root comm req algo w = (Normal (), w) \<and>
   NonblockingReduce_scatter_inplace buffer 0 op comm req algo w = (Normal (), w) \<and>
   NonblockingScatter_inplace buffer 0 root comm req algo w = (Normal (), w)"
  by (simp add: NonblockingAllreduce_def NonblockingAllgather_def NonblockingAlltoall_def
      NonblockingBcast_def NonblockingGather_def NonblockingReduce_def
      NonblockingReduce_scatter_def NonblockingScatter_def NonblockingAllreduce_inplace_def
      NonblockingAllgather_inplace_def NonblockingAlltoall_inplace_def
      NonblockingGather_inplace_def NonblockingReduce_inplace_def
      NonblockingReduce_scatter_inplace_def NonblockingScatter_inplace_def)

text \<open>
  C5, as stated, at a gather of zero elements and at a broadcast with the algorithm
  value 5, which no enumerator has: the blocking form enqueues nothing on the
  communicator's stream and queues no state (the broadcast raises), and the
  non-blocking form of the gather returns with the request variable still null,
  having drawn no internal stream and recorded no event. The zero-count return and
  the \<open>default:\<close> branch come before the operation is issued.
\<close>

theorem zero_count_or_unlisted_algorithm_is_not_issued:
  "blocking_form (op_Gather 1000 2000 0 2 HostTransferCollectiveAlgorithm_automatic)
       example_comm initial_world = (Normal (), initial_world) \<and>
   nonblocking_form (op_Gather 1000 2000 0 2 HostTransferCollectiveAlgorithm_automatic)
       example_comm 7 initial_world = (Normal (), initial_world) \<and>
   blocking_form (op_Bcast 1000 4 2 5) example_comm initial_world =
     (Raise (al_exception ''HostTransferBcast: Invalid algorithm''), initial_world) \<and>
   (5::int) \<noteq> HostTransferCollectiveAlgorithm_automatic \<and>
   enqueued initial_world = [] \<and>
   progress_queue initial_world = [] \<and>
   requests initial_world 7 = null_req \<and>
   cur_stream initial_world = 0"
  by (simp add: Gather_def NonblockingGather_def Bcast_def return_al_def throw_al_exception_def
      HostTransferCollectiveAlgorithm_automatic_def initial_world_simps null_req_def)

text \<open>
  C5, amended. For each of the eleven operations and each of the seven single-buffer
  overloads, when the call is issued (the collectives: a non-zero count and a listed
  algorithm; the point-to-point operations: always):

  The blocking form is the private \<open>do_\<close> function on the communicator's stream. It
  leaves every request variable, the counter of the internal streams and the event
  pool as they were (no request, no internal stream, no completion event); all it
  enqueues is enqueued on the communicator's stream, none of it a record of or a wait
  for an event of the runtime, and the state it queues was constructed on that
  stream.

  The non-blocking form draws the next internal stream \<open>s\<close>. When the runtime accepts
  the calls, what it enqueues is, in this order: the record of \<open>sync_event\<close> on the
  communicator's stream, the wait of \<open>s\<close> for \<open>sync_event\<close>, the work of the state's
  construction, all of it on \<open>s\<close> and none of it such a record or wait, and the record
  on \<open>s\<close> of an event taken from the pool; the request variable then points to a new
  request, its only owner, made of that event and the communicator's stream; the
  request the variable held before has one owner less, its event back in the pool if
  that was the last; and the state queued was constructed on \<open>s\<close>.
\<close>

theorem blocking_on_user_stream_nonblocking_on_internal_stream:
  assumes "is_issued c"
  shows
   "blocking_form c comm w = issue_on c comm (get_stream comm) w \<and>
    requests (snd (blocking_form c comm w)) = requests w \<and>
    request_heap (snd (blocking_form c comm w)) = request_heap w \<and>
    use_count (snd (blocking_form c comm w)) = use_count w \<and>
    cur_stream (snd (blocking_form c comm w)) = cur_stream w \<and>
    event_pool (snd (blocking_form c comm w)) = event_pool w \<and>
    events_created (snd (blocking_form c comm w)) = events_created w \<and>
    enqueued (snd (blocking_form c comm w)) =
      enqueued w @ new_entries w (snd (blocking_form c comm w)) \<and>
    list_all (\<lambda>x. stream_of x = get_stream comm) (new_entries w (snd (blocking_form c comm w))) \<and>
    filter is_sync_call (new_entries w (snd (blocking_form c comm w))) = [] \<and>
    (fst (blocking_form c comm w) = Normal () \<longrightarrow>
       map state_stream (new_states w (snd (blocking_form c comm w))) = [get_stream comm]) \<and>
    (let s = internal_streams w (unat (cur_stream w) mod num_internal_streams);
         sync_record = cudaEventRecord (sync_event w) (get_stream comm);
         sync_wait = cudaStreamWaitEvent s (sync_event w);
         w1 = w\<lparr>enqueued := enqueued w @ [sync_record, sync_wait],
                cur_stream := cur_stream w + 1\<rparr>;
         w2 = snd (issue_on c comm s w1);
         event = fst (get_cuda_event w);
         p = requests_made w;
         w3 = (snd (get_cuda_event w2))
                \<lparr>enqueued := enqueued w @ [sync_record, sync_wait] @ new_entries w1 w2 @
                               [cudaEventRecord event s],
                 requests := (requests w)(req := Some p),
                 request_heap := (request_heap w)
                   (p := \<lparr>op_event = event, orig_stream = get_stream comm\<rparr>),
                 use_count := (use_count w)(p := 1),
                 requests_made := p + 1\<rparr>
     in cuda_status w sync_record = cudaSuccess \<and>
        cuda_status w sync_wait = cudaSuccess \<and>
        fst (issue_on c comm s w1) = Normal () \<and>
        cuda_status w (cudaEventRecord event s) = cudaSuccess \<longrightarrow>
        nonblocking_form c comm req w =
          (Normal (),
           case requests w req of
             None \<Rightarrow> w3
           | Some q \<Rightarrow>
               w3\<lparr>use_count := (use_count w3)(q := use_count w3 q - 1),
                  event_pool := (if use_count w3 q \<le> 1
                                 then op_event (request_heap w3 q) # event_pool w3
                                 else event_pool w3)\<rparr>) \<and>
        list_all (\<lambda>x. stream_of x = s) (new_entries w1 w2) \<and>
        filter is_sync_call (new_entries w1 w2) = [] \<and>
        map state_stream (new_states w w2) = [s])"
proof -
  have b: "blocking_form c comm w = issue_on c comm (get_stream comm) w"
    using assms by (simp add: blocking_issue)
  define s where "s = internal_streams w (unat (cur_stream w) mod num_internal_streams)"
  define w1 where "w1 = w\<lparr>enqueued := enqueued w @
      [cudaEventRecord (sync_event w) (get_stream comm), cudaStreamWaitEvent s (sync_event w)],
      cur_stream := cur_stream w + 1\<rparr>"
  define w2 where "w2 = snd (issue_on c comm s w1)"
  define event where "event = fst (get_cuda_event w)"
  define w3 where "w3 = (snd (get_cuda_event w2))
                \<lparr>enqueued := enqueued w @ [cudaEventRecord (sync_event w) (get_stream comm),
                     cudaStreamWaitEvent s (sync_event w)] @ new_entries w1 w2 @
                               [cudaEventRecord event s],
                 requests := (requests w)(req := Some (requests_made w)),
                 request_heap := (request_heap w)
                   (requests_made w := \<lparr>op_event = event, orig_stream = get_stream comm\<rparr>),
                 use_count := (use_count w)(requests_made w := 1),
                 requests_made := requests_made w + 1\<rparr>"
  have nb: "nonblocking_form c comm req w =
          (Normal (),
           case requests w req of
             None \<Rightarrow> w3
           | Some q \<Rightarrow>
               w3\<lparr>use_count := (use_count w3)(q := use_count w3 q - 1),
                  event_pool := (if use_count w3 q \<le> 1
                                 then op_event (request_heap w3 q) # event_pool w3
                                 else event_pool w3)\<rparr>)"
    if a1: "cuda_status w (cudaEventRecord (sync_event w) (get_stream comm)) = cudaSuccess"
      and a2: "cuda_status w (cudaStreamWaitEvent s (sync_event w)) = cudaSuccess"
      and a3: "fst (issue_on c comm s w1) = Normal ()"
      and a4: "cuda_status w (cudaEventRecord event s) = cudaSuccess"
  proof -
    have sync: "sync_internal_stream_with_comm s comm (w\<lparr>cur_stream := cur_stream w + 1\<rparr>)
        = (Normal (), w1)"
      using a1 a2 by (simp add: sync_eq w1_def)
    have iss: "issue_on c comm s w1 = (Normal (), w2)"
      using a3 by (simp add: w2_def prod_eq_iff)
    have ev2: "fst (get_cuda_event w2) = event"
      unfolding event_def w2_def
      by (rule trans [OF get_cuda_event_pool [of _ w1]])
        (simp_all add: issue_on_frame w1_def get_cuda_event_upd)
    have fr: "cuda_status w2 = cuda_status w" "requests w2 = requests w"
      "request_heap w2 = request_heap w" "use_count w2 = use_count w"
      "requests_made w2 = requests_made w"
      by (simp_all add: w2_def issue_on_frame w1_def)
    have en2: "enqueued w2 = enqueued w1 @ new_entries w1 w2"
      unfolding w2_def by (rule issue_on_frame)
    have en1: "enqueued w1 = enqueued w @ [cudaEventRecord (sync_event w) (get_stream comm),
                  cudaStreamWaitEvent s (sync_event w)]"
      by (simp add: w1_def)
    have en: "enqueued w2 @ [cudaEventRecord event s] =
        enqueued w @ [cudaEventRecord (sync_event w) (get_stream comm),
          cudaStreamWaitEvent s (sync_event w)] @ new_entries w1 w2 @ [cudaEventRecord event s]"
      by (simp add: en2 en1)
    have "nonblocking_form c comm req w = setup_completion_event s comm req w2"
      using assms sync iss
      by (simp add: nonblocking_pipeline get_internal_stream_def then_do_def s_def)
    also have "\<dots> = (Normal (),
           case requests w req of
             None \<Rightarrow> w3
           | Some q \<Rightarrow>
               w3\<lparr>use_count := (use_count w3)(q := use_count w3 q - 1),
                  event_pool := (if use_count w3 q \<le> 1
                                 then op_event (request_heap w3 q) # event_pool w3
                                 else event_pool w3)\<rparr>)"
      using a4 unfolding setup_eq Let_def ev2 fr en w3_def [symmetric] by simp
    finally show ?thesis .
  qed
  have l: "list_all (\<lambda>x. stream_of x = s) (new_entries w1 w2)"
    unfolding w2_def by (rule issue_on_frame)
  have f: "filter is_sync_call (new_entries w1 w2) = []"
    unfolding w2_def by (rule issue_on_frame)
  have q: "map state_stream (new_states w w2) = [s]" if "fst (issue_on c comm s w1) = Normal ()"
  proof -
    have "map state_stream (new_states w1 w2) = [s]"
      unfolding w2_def using that by (rule issue_on_frame)
    then show ?thesis by (simp add: new_states_def w1_def)
  qed
  have blocking:
    "requests (snd (issue_on c comm (get_stream comm) w)) = requests w"
    "request_heap (snd (issue_on c comm (get_stream comm) w)) = request_heap w"
    "use_count (snd (issue_on c comm (get_stream comm) w)) = use_count w"
    "cur_stream (snd (issue_on c comm (get_stream comm) w)) = cur_stream w"
    "event_pool (snd (issue_on c comm (get_stream comm) w)) = event_pool w"
    "events_created (snd (issue_on c comm (get_stream comm) w)) = events_created w"
    "enqueued (snd (issue_on c comm (get_stream comm) w)) =
       enqueued w @ new_entries w (snd (issue_on c comm (get_stream comm) w))"
    "list_all (\<lambda>x. stream_of x = get_stream comm)
       (new_entries w (snd (issue_on c comm (get_stream comm) w)))"
    "filter is_sync_call (new_entries w (snd (issue_on c comm (get_stream comm) w))) = []"
    "fst (issue_on c comm (get_stream comm) w) = Normal () \<longrightarrow>
       map state_stream (new_states w (snd (issue_on c comm (get_stream comm) w))) =
         [get_stream comm]"
    by (rule issue_on_frame | rule impI, rule issue_on_frame, assumption)+
  have nonblocking:
    "cuda_status w (cudaEventRecord (sync_event w) (get_stream comm)) = cudaSuccess \<and>
     cuda_status w (cudaStreamWaitEvent s (sync_event w)) = cudaSuccess \<and>
     fst (issue_on c comm s w1) = Normal () \<and>
     cuda_status w (cudaEventRecord event s) = cudaSuccess \<longrightarrow>
     nonblocking_form c comm req w =
          (Normal (),
           case requests w req of
             None \<Rightarrow> w3
           | Some q \<Rightarrow>
               w3\<lparr>use_count := (use_count w3)(q := use_count w3 q - 1),
                  event_pool := (if use_count w3 q \<le> 1
                                 then op_event (request_heap w3 q) # event_pool w3
                                 else event_pool w3)\<rparr>) \<and>
     list_all (\<lambda>x. stream_of x = s) (new_entries w1 w2) \<and>
     filter is_sync_call (new_entries w1 w2) = [] \<and>
     map state_stream (new_states w w2) = [s]"
    using nb l f q by blast
  show ?thesis
    unfolding b Let_def
    using blocking nonblocking
    unfolding s_def w1_def w2_def event_def w3_def
    by (intro conjI) (rule refl | assumption)+
qed

theorem blocking_on_user_stream_nonblocking_on_internal_stream_witness:
  "is_issued (op_Gather_inplace 1000 4 2 HostTransferCollectiveAlgorithm_automatic) \<and>
   blocking_form (op_Gather_inplace 1000 4 2 HostTransferCollectiveAlgorithm_automatic)
       example_comm completed_world =
     (Normal (),
      completed_world
        \<lparr>enqueued := [cudaMemcpyAsync 8 1008 4 cudaMemcpyDeviceToHost 42,
                      start_event_record 42, gpu_wait_wait 42,
                      cudaMemcpyAsync 1000 0 16 cudaMemcpyHostToDevice 42,
                      end_event_record 42],
         pinned_brk := 16,
         progress_queue :=
           [GatherState \<lparr>gather_is_root = True, gather_stream = 42, gather_host_mem = 0,
              gather_count = 4, gather_root = 2, gather_comm = 9\<rparr>]\<rparr>) \<and>
   nonblocking_form (op_Gather_inplace 1000 4 2 HostTransferCollectiveAlgorithm_automatic)
       example_comm 7 completed_world =
     (Normal (),
      completed_world
        \<lparr>enqueued := [cudaEventRecord 0 42, cudaStreamWaitEvent 101 0,
                      cudaMemcpyAsync 8 1008 4 cudaMemcpyDeviceToHost 101,
                      start_event_record 101, gpu_wait_wait 101,
                      cudaMemcpyAsync 1000 0 16 cudaMemcpyHostToDevice 101,
                      end_event_record 101,
                      cudaEventRecord 4 101],
         cur_stream := 1,
         event_pool := [3],
         events_created := 5,
         pinned_brk := 16,
         progress_queue :=
           [GatherState \<lparr>gather_is_root = True, gather_stream = 101, gather_host_mem = 0,
              gather_count = 4, gather_root = 2, gather_comm = 9\<rparr>],
         requests := (requests completed_world)(7 := Some 1),
         request_heap := (request_heap completed_world)
           (1 := \<lparr>op_event = 4, orig_stream = 42\<rparr>),
         use_count := (use_count completed_world)(1 := 1, 0 := 0),
         requests_made := 2\<rparr>)"
proof -
  let ?c = "op_Gather_inplace 1000 4 2 HostTransferCollectiveAlgorithm_automatic"
  have i: "is_issued ?c" by simp
  have g: "\<And>s w. cuda_status w = (\<lambda>c. cudaSuccess) \<Longrightarrow> pinned_brk w = 0 \<Longrightarrow>
      do_gather 1000 1000 4 2 example_comm s w =
       (Normal (),
        w\<lparr>enqueued := enqueued w @ [cudaMemcpyAsync 8 1008 4 cudaMemcpyDeviceToHost s,
                      start_event_record s, gpu_wait_wait s,
                      cudaMemcpyAsync 1000 0 16 cudaMemcpyHostToDevice s,
                      end_event_record s],
         pinned_brk := 16,
         progress_queue := progress_queue w @
           [GatherState \<lparr>gather_is_root = True, gather_stream = s, gather_host_mem = 0,
              gather_count = 4, gather_root = 2, gather_comm = 9\<rparr>]\<rparr>)"
    by (simp add: do_gather_def new_GatherAlState_eq Let_def then_do_def progress_enqueue_def
        example_comm_def)
  have gs: "get_stream example_comm = 42" by (simp add: example_comm_def)
  have pb: "pinned_brk completed_world = 0" by (simp add: completed_world_def initial_world_def)
  show ?thesis
    using i blocking_on_user_stream_nonblocking_on_internal_stream [OF i, of example_comm
        completed_world 7]
    by (simp add: g gs pb completed_world_simps get_cuda_event_initial get_cuda_event_upd
        num_internal_streams_def new_entries_def Let_def)
qed

text \<open>
  C7, as stated, at element count zero: with the algorithm value 2, which is neither
  enumerator, both forms of the allreduce return normally. The zero-count return comes
  before the \<open>switch\<close>.
\<close>

theorem allreduce_zero_count_accepts_unknown_algorithm:
  "(2::int) \<noteq> HostTransferAllreduceAlgorithm_automatic \<and>
   (2::int) \<noteq> HostTransferAllreduceAlgorithm_host_transfer \<and>
   Allreduce 1000 2000 0 0 example_comm 2 initial_world = (Normal (), initial_world) \<and>
   NonblockingAllreduce 1000 2000 0 0 example_comm 7 2 initial_world = (Normal (), initial_world)"
  by (simp add: Allreduce_def NonblockingAllreduce_def return_al_def
      HostTransferAllreduceAlgorithm_automatic_def HostTransferAllreduceAlgorithm_host_transfer_def)

text \<open>
  C7, amended. The blocking and the non-blocking allreduce behave the same for
  \<open>automatic\<close> and \<open>host_transfer\<close>. For a non-zero count and any other algorithm value
  the blocking form raises "Invalid algorithm" and changes nothing; the non-blocking
  form raises as well (the error of a refused synchronisation call if there is one,
  "Invalid algorithm" otherwise), queues no state and leaves the request variables as
  they were.
\<close>

theorem allreduce_algorithm_selection:
  "Allreduce sendbuf recvbuf count op comm HostTransferAllreduceAlgorithm_automatic =
     Allreduce sendbuf recvbuf count op comm HostTransferAllreduceAlgorithm_host_transfer \<and>
   NonblockingAllreduce sendbuf recvbuf count op comm req HostTransferAllreduceAlgorithm_automatic =
     NonblockingAllreduce sendbuf recvbuf count op comm req
       HostTransferAllreduceAlgorithm_host_transfer \<and>
   (count \<noteq> 0 \<and> algo \<noteq> HostTransferAllreduceAlgorithm_automatic \<and>
    algo \<noteq> HostTransferAllreduceAlgorithm_host_transfer \<longrightarrow>
      Allreduce sendbuf recvbuf count op comm algo w =
        (Raise (al_exception ''Invalid algorithm''), w) \<and>
      (let s = internal_streams w (unat (cur_stream w) mod num_internal_streams);
           sync_record = cudaEventRecord (sync_event w) (get_stream comm);
           sync_wait = cudaStreamWaitEvent s (sync_event w)
       in fst (NonblockingAllreduce sendbuf recvbuf count op comm req algo w) =
            Raise (if cuda_status w sync_record \<noteq> cudaSuccess then cuda_error sync_record
                   else if cuda_status w sync_wait \<noteq> cudaSuccess then cuda_error sync_wait
                   else al_exception ''Invalid algorithm'')) \<and>
      progress_queue (snd (NonblockingAllreduce sendbuf recvbuf count op comm req algo w)) =
        progress_queue w \<and>
      requests (snd (NonblockingAllreduce sendbuf recvbuf count op comm req algo w)) =
        requests w)"
  by (auto simp: Allreduce_def NonblockingAllreduce_def fun_eq_iff throw_al_exception_def
      get_internal_stream_def then_do_def sync_eq Let_def)

theorem allreduce_algorithm_selection_witness:
  "(4::nat) \<noteq> 0 \<and> (2::int) \<noteq> HostTransferAllreduceAlgorithm_automatic \<and>
   (2::int) \<noteq> HostTransferAllreduceAlgorithm_host_transfer \<and>
   Allreduce 1000 2000 4 0 example_comm 2 initial_world =
     (Raise (al_exception ''Invalid algorithm''), initial_world) \<and>
   fst (NonblockingAllreduce 1000 2000 4 0 example_comm 7 2 initial_world) =
     Raise (al_exception ''Invalid algorithm'') \<and>
   progress_queue (snd (NonblockingAllreduce 1000 2000 4 0 example_comm 7 2 initial_world)) = [] \<and>
   requests (snd (NonblockingAllreduce 1000 2000 4 0 example_comm 7 2 initial_world)) 7 = None"
  using allreduce_algorithm_selection [of 1000 2000 4 0 example_comm 7 2 initial_world]
  by (simp add: initial_world_simps HostTransferAllreduceAlgorithm_automatic_def
      HostTransferAllreduceAlgorithm_host_transfer_def Let_def)

text \<open>
  C10. \<open>NonblockingSend\<close>, \<open>NonblockingRecv\<close> and \<open>NonblockingSendRecv\<close>, for every
  element count, zero included: when the runtime accepts the three synchronisation
  calls, the call returns normally, a state of the operation's class, constructed on
  the internal stream, has been queued for the progress engine, and the request
  variable points to a new request, its only owner, made of the recorded event and the
  communicator's stream. The request the variable held before has one owner less,
  and its event is back in the pool if that was the last. The witness is a send of
  zero elements through a variable that was the only owner of a request.
\<close>

theorem point_to_point_always_issued:
  assumes s: "s = internal_streams w (unat (cur_stream w) mod num_internal_streams)"
    and ev: "event = fst (get_cuda_event w)"
    and sync1: "cuda_status w (cudaEventRecord (sync_event w) (get_stream comm)) = cudaSuccess"
    and sync2: "cuda_status w (cudaStreamWaitEvent s (sync_event w)) = cudaSuccess"
    and rec: "cuda_status w (cudaEventRecord event s) = cudaSuccess"
  shows
   "(let p = requests_made w;
         issued = (\<lambda>st. (snd (get_cuda_event w))
            \<lparr>enqueued := enqueued w @
               [cudaEventRecord (sync_event w) (get_stream comm),
                cudaStreamWaitEvent s (sync_event w),
                state_construction st,
                cudaEventRecord event s],
             cur_stream := cur_stream w + 1,
             progress_queue := progress_queue w @ [st],
             requests := (requests w)(req := Some p),
             request_heap := (request_heap w)
               (p := \<lparr>op_event = event, orig_stream = get_stream comm\<rparr>),
             use_count := (use_count w)(p := 1),
             requests_made := p + 1\<rparr>);
         old_released = (\<lambda>w3.
            case requests w req of
              None \<Rightarrow> w3
            | Some q \<Rightarrow>
                w3\<lparr>use_count := (use_count w3)(q := use_count w3 q - 1),
                   event_pool := (if use_count w3 q \<le> 1
                                  then op_event (request_heap w3 q) # event_pool w3
                                  else event_pool w3)\<rparr>)
     in NonblockingSend sendbuf count dest comm req w =
          (Normal (), old_released (issued (SendAlState sendbuf count dest comm s))) \<and>
        NonblockingRecv recvbuf count src comm req w =
          (Normal (), old_released (issued (RecvAlState recvbuf count src comm s))) \<and>
        NonblockingSendRecv sendbuf send_count dest recvbuf recv_count src comm req w =
          (Normal (), old_released (issued
             (SendRecvAlState sendbuf send_count dest recvbuf recv_count src comm s))))"
  using sync1 sync2 [unfolded s] rec [unfolded ev s]
  by (simp add: NonblockingSend_def NonblockingRecv_def NonblockingSendRecv_def
      get_internal_stream_def then_do_def sync_eq do_eqs setup_eq get_cuda_event_upd
      get_cuda_event_frame s ev Let_def split: option.split)

theorem point_to_point_always_issued_witness:
  "NonblockingSend 1000 0 3 example_comm 7 completed_world =
     (Normal (), completed_world
        \<lparr>enqueued := [cudaEventRecord 0 42, cudaStreamWaitEvent 101 0,
                      state_construction (SendAlState 1000 0 3 example_comm 101),
                      cudaEventRecord 4 101],
         cur_stream := 1,
         event_pool := [3],
         events_created := 5,
         progress_queue := [SendAlState 1000 0 3 example_comm 101],
         requests := (requests completed_world)(7 := Some 1),
         request_heap := (request_heap completed_world)
           (1 := \<lparr>op_event = 4, orig_stream = 42\<rparr>),
         use_count := (use_count completed_world)(1 := 1, 0 := 0),
         requests_made := 2\<rparr>)"
proof -
  show ?thesis
    using point_to_point_always_issued [where s = 101 and w = completed_world and event = 4
        and comm = example_comm and req = 7 and sendbuf = 1000 and count = 0 and dest = 3]
    by (simp add: completed_world_simps get_cuda_event_initial num_internal_streams_def
        example_comm_def Let_def)
qed

section \<open>Construction of the collective states\<close>

text \<open>
  C6, as stated, at the barrier state of the host-transfer backend: its construction
  enqueues the record of the start event and the wait on the sync flag and nothing
  else. There is no copy from device to host, and although the class is of the
  signal-at-end variant there is no copy back and no record of an end event: the
  sequence of the specification is not followed, whichever variant is assumed.
\<close>

theorem barrier_construction_is_not_spec_sequence:
  "fst (new_BarrierAlState example_comm 42 initial_world) =
     Normal \<lparr>barrier_stream = 42, barrier_comm = 9\<rparr> \<and>
   BarrierAlState_signals_at_end \<lparr>barrier_stream = 42, barrier_comm = 9\<rparr> \<and>
   new_entries initial_world (snd (new_BarrierAlState example_comm 42 initial_world)) =
     [start_event_record 42, gpu_wait_wait 42] \<and>
   \<not> spec_construction_sequence True 42 (0, 0)
       (new_entries initial_world (snd (new_BarrierAlState example_comm 42 initial_world))) \<and>
   \<not> spec_construction_sequence False 42 (0, 0)
       (new_entries initial_world (snd (new_BarrierAlState example_comm 42 initial_world)))"
  by (simp add: new_BarrierAlState_eq new_entries_def example_comm_def
      BarrierAlState_signals_at_end_def)

text \<open>
  C6, amended. When the runtime accepts the copies, the construction of a gather state
  (in a communicator whose rank is below its size) enqueues, on the stream given to
  the constructor, exactly: (i) a copy from device to host into the staging buffer
  \<open>host_mem\<close> (of \<open>size * count\<close> elements on the root, of \<open>count\<close> elements elsewhere),
  (ii) the record of the start event, (iii) the wait on the sync flag, and (iv) a
  copy from host to device out of the staging buffer followed by the record of the
  end event if and only if the state signals at the end, that is, on the root. The
  construction of a barrier state enqueues (ii) and (iii) only.
\<close>

theorem gather_and_barrier_construction:
  assumes "\<forall>dst src n kind. cuda_status w (cudaMemcpyAsync dst src n kind stream') = cudaSuccess"
    and "rank comm' < size_comm comm'"
  shows
   "(case new_GatherAlState sendbuf recvbuf count' root' comm' stream' w of
       (Normal this, w') \<Rightarrow>
          gather_is_root this = (int (rank comm') = root') \<and>
          enqueued w' = enqueued w @ new_entries w w' \<and>
          spec_construction_sequence (GatherAlState_signals_at_end this) stream'
            (gather_host_mem this,
             if gather_is_root this then size_comm comm' * count' else count')
            (new_entries w w')
     | (Raise e, w') \<Rightarrow> False) \<and>
    new_BarrierAlState comm' stream' w =
     (Normal \<lparr>barrier_stream = stream', barrier_comm = get_comm comm'\<rparr>,
      w\<lparr>enqueued := enqueued w @ [start_event_record stream', gpu_wait_wait stream']\<rparr>)"
proof -
  have "Suc (rank comm') * count' \<le> size_comm comm' * count'"
    using assms(2) by (intro mult_le_mono1) simp
  then have "rank comm' * count' + count' \<le> size_comm comm' * count'"
    by (simp add: add.commute)
  then show ?thesis
    using assms(1)
    by (simp add: new_GatherAlState_eq new_BarrierAlState_eq Let_def new_entries_def
        GatherAlState_signals_at_end_def mult.commute)
qed

theorem gather_and_barrier_construction_witness:
  "(\<forall>dst src n kind. cuda_status initial_world (cudaMemcpyAsync dst src n kind 42) = cudaSuccess) \<and>
   rank example_comm < size_comm example_comm \<and>
   new_GatherAlState 1000 2000 4 2 example_comm 42 initial_world =
     (Normal \<lparr>gather_is_root = True, gather_stream = 42, gather_host_mem = 0, gather_count = 4,
              gather_root = 2, gather_comm = 9\<rparr>,
      initial_world
        \<lparr>enqueued := [cudaMemcpyAsync 8 1000 4 cudaMemcpyDeviceToHost 42,
                      start_event_record 42, gpu_wait_wait 42,
                      cudaMemcpyAsync 2000 0 16 cudaMemcpyHostToDevice 42,
                      end_event_record 42],
         pinned_brk := 16\<rparr>) \<and>
   new_GatherAlState 1000 2000 4 0 example_comm 42 initial_world =
     (Normal \<lparr>gather_is_root = False, gather_stream = 42, gather_host_mem = 0, gather_count = 4,
              gather_root = 0, gather_comm = 9\<rparr>,
      initial_world
        \<lparr>enqueued := [cudaMemcpyAsync 0 1000 4 cudaMemcpyDeviceToHost 42,
                      start_event_record 42, gpu_wait_wait 42],
         pinned_brk := 4\<rparr>)"
proof -
  have h: "\<forall>dst src n kind.
      cuda_status initial_world (cudaMemcpyAsync dst src n kind 42) = cudaSuccess"
    by (simp add: initial_world_simps)
  have r: "rank example_comm < size_comm example_comm"
    by (simp add: example_comm_def)
  show ?thesis
    using h r
      gather_and_barrier_construction [OF h r, where sendbuf = 1000 and recvbuf = 2000
        and count' = 4 and root' = 2]
      gather_and_barrier_construction [OF h r, where sendbuf = 1000 and recvbuf = 2000
        and count' = 4 and root' = 0]
    by (simp add: new_GatherAlState_eq Let_def initial_world_simps example_comm_def)
qed




end
